theory Spec2Isabelle
  imports Complex_Main "HOL-Library.Word" "HOL-Library.Sublist"
begin

section \<open>Strings and bytes of the JavaScript runtime\<close>

text \<open>
  The server (\<^verbatim>\<open>src/unnamed/part_001\<close>, the \<^verbatim>\<open>server.js\<close> of the README) is a Node.js
  program. A JavaScript string is modelled as a \<^typ>\<open>string\<close> whose characters are the code
  points U+0000 to U+00FF; a \<^verbatim>\<open>Buffer\<close> is a list of bytes. Within that range the
  built-ins below are written out as ECMAScript and Node define them:
  \<^item> \<^verbatim>\<open>String.prototype.trim\<close> strips the white space and line terminators, which below
    U+0100 are the code points 9 to 13, 32 and 160;
  \<^item> \<^verbatim>\<open>toUpperCase\<close> is applied by the program only to strings that matched an ASCII
    regular expression or are hexadecimal output, where it maps \<^verbatim>\<open>a-z\<close> to \<^verbatim>\<open>A-Z\<close>
    and leaves every other character alone;
  \<^item> \<^verbatim>\<open>toLowerCase\<close> maps \<^verbatim>\<open>A-Z\<close> and the capital letters U+00C0 to U+00DE (without
    the multiplication sign U+00D7) to the code point 32 above;
  \<^item> \<^verbatim>\<open>Buffer.from(s, "utf8")\<close> gives one byte for a code point below 128 and two bytes
    for the others; \<^verbatim>\<open>Buffer.from(s, "ascii")\<close> keeps the low byte of each code unit;
  \<^item> \<^verbatim>\<open>buf.toString("hex")\<close> writes two lower-case hexadecimal digits per byte.
\<close>

type_synonym byte = "8 word"

definition lowerLetters :: string where
  "lowerLetters = ''abcdefghijklmnopqrstuvwxyz''"

definition upperLetters :: string where
  "upperLetters = ''ABCDEFGHIJKLMNOPQRSTUVWXYZ''"

definition decimalDigits :: string where
  "decimalDigits = ''0123456789''"

definition upperChar :: "char \<Rightarrow> char" where
  "upperChar c = (case map_of (zip lowerLetters upperLetters) c of Some u \<Rightarrow> u | None \<Rightarrow> c)"

definition toUpperCase :: "string \<Rightarrow> string" where
  "toUpperCase s = map upperChar s"

definition lowerChar :: "char \<Rightarrow> char" where
  "lowerChar c =
     (case map_of (zip upperLetters lowerLetters) c of
        Some l \<Rightarrow> l
      | None \<Rightarrow>
          (let n = (of_char c :: nat)
           in if 192 \<le> n \<and> n \<le> 222 \<and> n \<noteq> 215 then char_of (n + 32) else c))"

definition toLowerCase :: "string \<Rightarrow> string" where
  "toLowerCase s = map lowerChar s"

definition isWhiteSpace :: "char \<Rightarrow> bool" where
  "isWhiteSpace c = (of_char c \<in> {9, 10, 11, 12, 13, 32, 160 :: nat})"

definition trim :: "string \<Rightarrow> string" where
  "trim s = rev (dropWhile isWhiteSpace (rev (dropWhile isWhiteSpace s)))"

definition startsWith :: "string \<Rightarrow> string \<Rightarrow> bool" where
  "startsWith s p = (take (length p) s = p)"

fun includesStr :: "string \<Rightarrow> string \<Rightarrow> bool" where
  "includesStr [] p = (p = [])"
| "includesStr (c # s) p = (startsWith (c # s) p \<or> includesStr s p)"

definition utf8char :: "char \<Rightarrow> byte list" where
  "utf8char c =
     (let n = (of_char c :: nat)
      in if n < 128 then [of_nat n] else [of_nat (192 + n div 64), of_nat (128 + n mod 64)])"

definition utf8 :: "string \<Rightarrow> byte list" where
  "utf8 s = concat (map utf8char s)"

definition asciiBytes :: "string \<Rightarrow> byte list" where
  "asciiBytes s = map (\<lambda>c. of_nat (of_char c)) s"

definition hexDigit :: "nat \<Rightarrow> char" where
  "hexDigit n = ''0123456789abcdef'' ! n"

definition hexByte :: "byte \<Rightarrow> string" where
  "hexByte b = [hexDigit (unat b div 16), hexDigit (unat b mod 16)]"

definition toHex :: "byte list \<Rightarrow> string" where
  "toHex bs = concat (map hexByte bs)"

text \<open>
  Reading hexadecimal text back is not part of the program; it is the decoding that the
  specification's round-trip property speaks of: two digits of either case per byte.
\<close>

definition hexValue :: "char \<Rightarrow> nat option" where
  "hexValue c = map_of (zip ''0123456789abcdefABCDEF'' ([0..<16] @ [10..<16])) c"

fun hexDecode :: "string \<Rightarrow> byte list option" where
  "hexDecode [] = Some []"
| "hexDecode [c] = None"
| "hexDecode (c # d # s) =
     (case (hexValue c, hexValue d, hexDecode s) of
        (Some h, Some l, Some bs) \<Rightarrow> Some (of_nat (16 * h + l) # bs)
      | _ \<Rightarrow> None)"

section \<open>Identifier normalizer\<close>

text \<open>
  The character classes of the regular expressions \<^verbatim>\<open>[A-Fa-f0-9]\<close> and \<^verbatim>\<open>[A-Za-z0-9]\<close>.
\<close>

definition isHexChar :: "char \<Rightarrow> bool" where
  "isHexChar c = (c \<in> set ''ABCDEFabcdef0123456789'')"

definition isAlnum :: "char \<Rightarrow> bool" where
  "isAlnum c = (c \<in> set (upperLetters @ lowerLetters @ decimalDigits))"

text \<open>
  \<^verbatim>\<open>currencyTo160Hex(currency)\<close>, lines 163 to 177. Its callers pass a string (the schema
  of \<^verbatim>\<open>token_overview\<close> is \<^verbatim>\<open>z.string().min(1)\<close>), for which
  \<^verbatim>\<open>String(currency || "")\<close> is the string itself. \<^const>\<open>None\<close> is the \<^verbatim>\<open>null\<close> result.
\<close>

definition currencyTo160Hex :: "string \<Rightarrow> string option" where
  "currencyTo160Hex currency =
     (let raw = trim currency
      in if length raw = 40 \<and> list_all isHexChar raw then Some (toUpperCase raw)
         else if length raw = 3 \<and> list_all isAlnum raw then
           (let hex = toUpperCase (toHex (asciiBytes (toUpperCase raw)))
            in Some (hex @ replicate 34 CHR ''0''))
         else
           (let bytes = utf8 raw
            in if length bytes > 20 then None
               else Some (toUpperCase (toHex (bytes @ replicate (20 - length bytes) 0)))))"

text \<open>
  \<^verbatim>\<open>tokenIdFromIssuerCurrency(issuer, currency)\<close>, lines 180 to 186; \<^verbatim>\<open>!currencyHex\<close> holds
  of \<^verbatim>\<open>null\<close> and of the empty string.
\<close>

definition tokenIdFromIssuerCurrency :: "string \<Rightarrow> string \<Rightarrow> string option" where
  "tokenIdFromIssuerCurrency issuer currency =
     (case currencyTo160Hex currency of
        None \<Rightarrow> None
      | Some currencyHex \<Rightarrow>
          if currencyHex = [] then None else Some (currencyHex @ ''.'' @ issuer))"

section \<open>JavaScript values\<close>

text \<open>
  A number is an exact real or \<^verbatim>\<open>NaN\<close>: the rounding of doubles, their overflow to an
  infinity and the sign of zero are not modelled, so \<^verbatim>\<open>Number.isFinite\<close> rejects exactly
  \<^verbatim>\<open>NaN\<close> here. Division is used by the program only behind a guard on the divisor; where
  JavaScript would give an infinity the model gives \<^verbatim>\<open>NaN\<close>.
\<close>

datatype jsnum = Fin real | NaN

fun jadd :: "jsnum \<Rightarrow> jsnum \<Rightarrow> jsnum" where
  "jadd (Fin a) (Fin b) = Fin (a + b)"
| "jadd _ _ = NaN"

fun jsub :: "jsnum \<Rightarrow> jsnum \<Rightarrow> jsnum" where
  "jsub (Fin a) (Fin b) = Fin (a - b)"
| "jsub _ _ = NaN"

fun jmul :: "jsnum \<Rightarrow> jsnum \<Rightarrow> jsnum" where
  "jmul (Fin a) (Fin b) = Fin (a * b)"
| "jmul _ _ = NaN"

fun jdiv :: "jsnum \<Rightarrow> jsnum \<Rightarrow> jsnum" where
  "jdiv (Fin a) (Fin b) = (if b = 0 then NaN else Fin (a / b))"
| "jdiv _ _ = NaN"

fun jabs :: "jsnum \<Rightarrow> jsnum" where
  "jabs (Fin a) = Fin \<bar>a\<bar>"
| "jabs NaN = NaN"

fun jgt :: "jsnum \<Rightarrow> jsnum \<Rightarrow> bool" where
  "jgt (Fin a) (Fin b) = (a > b)"
| "jgt _ _ = False"

text \<open>
  A value as \<^verbatim>\<open>JSON.parse\<close> builds it, with \<^verbatim>\<open>undefined\<close> for what a property read of a
  missing name gives. An object is the list of its own properties in enumeration order (the
  order of \<^verbatim>\<open>Object.values\<close>), each name once.
\<close>

datatype jsval =
    JUndefined
  | JNull
  | JBool bool
  | JNum jsnum
  | JStr string
  | JArr "jsval list"
  | JObj "(string \<times> jsval) list"

text \<open>A thrown error is the message that \<^verbatim>\<open>toolError\<close> would report for it.\<close>

type_synonym exn = string

fun truthy :: "jsval \<Rightarrow> bool" where
  "truthy JUndefined = False"
| "truthy JNull = False"
| "truthy (JBool b) = b"
| "truthy (JNum n) = (n \<noteq> NaN \<and> n \<noteq> Fin 0)"
| "truthy (JStr s) = (s \<noteq> [])"
| "truthy (JArr xs) = True"
| "truthy (JObj kvs) = True"

fun isNullish :: "jsval \<Rightarrow> bool" where
  "isNullish JUndefined = True"
| "isNullish JNull = True"
| "isNullish _ = False"

text \<open>\<^verbatim>\<open>typeof v === "object"\<close> for a value that is not \<^verbatim>\<open>null\<close>, and \<^verbatim>\<open>Array.isArray\<close>.\<close>

fun isObjectType :: "jsval \<Rightarrow> bool" where
  "isObjectType (JArr xs) = True"
| "isObjectType (JObj kvs) = True"
| "isObjectType _ = False"

fun isArray :: "jsval \<Rightarrow> bool" where
  "isArray (JArr xs) = True"
| "isArray _ = False"

fun elements :: "jsval \<Rightarrow> jsval list" where
  "elements (JArr xs) = xs"
| "elements _ = []"

text \<open>
  \<^verbatim>\<open>a || b\<close> and \<^verbatim>\<open>a ?? b\<close> on values that are already computed (the program's right
  operands are property reads and literals, which have no effect).
\<close>

definition orElse :: "jsval \<Rightarrow> jsval \<Rightarrow> jsval" where
  "orElse a b = (if truthy a then a else b)"

definition nullish :: "jsval \<Rightarrow> jsval \<Rightarrow> jsval" where
  "nullish a b = (if isNullish a then b else a)"

text \<open>
  Property reads. \<^verbatim>\<open>key in value\<close> and \<^verbatim>\<open>value[key]\<close> are modelled for the own
  properties of an object. An array or a string has no own property besides its indices and
  \<^verbatim>\<open>length\<close>, and no name that the program reads is one of those or a member of a built-in
  prototype, so every other read gives \<^verbatim>\<open>undefined\<close>. \<open>optField\<close> is \<^verbatim>\<open>v?.k\<close>, which is
  also \<^verbatim>\<open>v.k\<close> for a receiver that is neither \<^verbatim>\<open>null\<close> nor \<^verbatim>\<open>undefined\<close>;
  \<open>getProp\<close> is \<^verbatim>\<open>v.k\<close> on any receiver, with the TypeError of V8.
\<close>

fun hasKey :: "jsval \<Rightarrow> string \<Rightarrow> bool" where
  "hasKey (JObj kvs) k = (k \<in> set (map fst kvs))"
| "hasKey _ k = False"

fun optField :: "jsval \<Rightarrow> string \<Rightarrow> jsval" where
  "optField (JObj kvs) k = (case map_of kvs k of Some v \<Rightarrow> v | None \<Rightarrow> JUndefined)"
| "optField _ k = JUndefined"

fun getProp :: "jsval \<Rightarrow> string \<Rightarrow> exn + jsval" where
  "getProp JUndefined k =
     Inl (''Cannot read properties of undefined (reading '' @ [CHR 0x27] @ k @ [CHR 0x27] @ '')'')"
| "getProp JNull k =
     Inl (''Cannot read properties of null (reading '' @ [CHR 0x27] @ k @ [CHR 0x27] @ '')'')"
| "getProp v k = Inr (optField v k)"

text \<open>
  \<^verbatim>\<open>Number(value)\<close>. The conversion of a string, an array or an object to a number
  (\<^verbatim>\<open>StringToNumber\<close>, \<^verbatim>\<open>ToPrimitive\<close>) belongs to the language runtime and is the
  parameter \<open>co\<close> of every function that converts.
\<close>

type_synonym coercion = "jsval \<Rightarrow> jsnum"

fun Number :: "coercion \<Rightarrow> jsval \<Rightarrow> jsnum" where
  "Number co JUndefined = NaN"
| "Number co JNull = Fin 0"
| "Number co (JBool b) = Fin (if b then 1 else 0)"
| "Number co (JNum n) = n"
| "Number co v = co v"

text \<open>\<^verbatim>\<open>toNum(value)\<close>, lines 118 to 121; \<^const>\<open>None\<close> is \<^verbatim>\<open>null\<close>.\<close>

definition toNum :: "coercion \<Rightarrow> jsval \<Rightarrow> jsnum option" where
  "toNum co v = (let n = Number co v in if n \<noteq> NaN then Some n else None)"

definition numOrNull :: "jsnum option \<Rightarrow> jsval" where
  "numOrNull n = (case n of None \<Rightarrow> JNull | Some x \<Rightarrow> JNum x)"

text \<open>\<^verbatim>\<open>a ?? b\<close> on results of \<^const>\<open>toNum\<close>.\<close>

definition orNum :: "jsnum option \<Rightarrow> jsnum option \<Rightarrow> jsnum option" where
  "orNum a b = (case a of None \<Rightarrow> b | Some x \<Rightarrow> Some x)"

text \<open>\<^verbatim>\<open>Number(x || 0)\<close>, as the handlers read a numeric field.\<close>

definition numOr0 :: "coercion \<Rightarrow> jsval \<Rightarrow> jsnum" where
  "numOr0 co v = Number co (orElse v (JNum (Fin 0)))"

text \<open>
  \<^verbatim>\<open>pickFirstNumber(value, keys)\<close>, lines 123 to 144: first the keys in order on the value
  itself, then every nested object or array in enumeration order, each searched the same way.
\<close>

fun pickKeys :: "coercion \<Rightarrow> jsval \<Rightarrow> string list \<Rightarrow> jsnum option" where
  "pickKeys co v [] = None"
| "pickKeys co v (key # keys) =
     (if hasKey v key then
        (case toNum co (optField v key) of Some n \<Rightarrow> Some n | None \<Rightarrow> pickKeys co v keys)
      else pickKeys co v keys)"

fun pickFirstNumber :: "coercion \<Rightarrow> jsval \<Rightarrow> string list \<Rightarrow> jsnum option"
  and pickNested :: "coercion \<Rightarrow> jsval list \<Rightarrow> string list \<Rightarrow> jsnum option"
  and pickNestedProps :: "coercion \<Rightarrow> (string \<times> jsval) list \<Rightarrow> string list \<Rightarrow> jsnum option"
where
  "pickFirstNumber co (JObj kvs) keys =
     (case pickKeys co (JObj kvs) keys of
        Some n \<Rightarrow> Some n
      | None \<Rightarrow> pickNestedProps co kvs keys)"
| "pickFirstNumber co (JArr xs) keys =
     (case pickKeys co (JArr xs) keys of
        Some n \<Rightarrow> Some n
      | None \<Rightarrow> pickNested co xs keys)"
| "pickFirstNumber co JUndefined keys = None"
| "pickFirstNumber co JNull keys = None"
| "pickFirstNumber co (JBool b) keys = None"
| "pickFirstNumber co (JNum n) keys = None"
| "pickFirstNumber co (JStr s) keys = None"
| "pickNested co [] keys = None"
| "pickNested co (nested # rest) keys =
     (if truthy nested \<and> isObjectType nested then
        (case pickFirstNumber co nested keys of
           Some n \<Rightarrow> Some n
         | None \<Rightarrow> pickNested co rest keys)
      else pickNested co rest keys)"
| "pickNestedProps co [] keys = None"
| "pickNestedProps co ((k, nested) # rest) keys =
     (if truthy nested \<and> isObjectType nested then
        (case pickFirstNumber co nested keys of
           Some n \<Rightarrow> Some n
         | None \<Rightarrow> pickNestedProps co rest keys)
      else pickNestedProps co rest keys)"

section \<open>Upstream adapter\<close>

text \<open>
  What lies outside the program is the parameter \<open>rt\<close>: the configured base addresses, the
  network (\<open>fetch\<close> answers a request with a response, or fails with the message of the error
  that \<^verbatim>\<open>fetch\<close>, the \<^verbatim>\<open>URL\<close> constructor or the reading of the body throws), the
  built-ins \<^verbatim>\<open>JSON.parse\<close> (\<^const>\<open>None\<close> when it throws), \<^verbatim>\<open>JSON.stringify\<close> and
  \<^verbatim>\<open>String\<close>, the conversion of non-primitive values to numbers, and the clock. A request is
  either the address that \<^verbatim>\<open>urlWithPathAndQuery(base, path, query)\<close> builds, fetched with
  GET, or a POST of a body text to an address. Every request is answered or fails: a call
  that never settles is outside the model.
\<close>

record response =
  status :: nat
  statusText :: string
  contentTypeHeader :: "string option"
  responseText :: string

datatype request = Get string string jsval | Post string string

record runtime =
  LOS_BASE_URL :: string
  DATA_XRPL_BASE_URL :: string
  XRPL_RPC_URL :: string
  fetch :: "request \<Rightarrow> exn + response"
  JSON_parse :: "string \<Rightarrow> jsval option"
  JSON_stringify :: "jsval \<Rightarrow> string"
  toStr :: "jsval \<Rightarrow> string"
  coerce :: coercion
  nowIso :: string

text \<open>
  A step that may throw gives \<^const>\<open>Inl\<close> with the error or \<^const>\<open>Inr\<close> with its value;
  \<open>bindE\<close> runs the next step on the value and passes an error on.
\<close>

definition bindE :: "exn + 'a \<Rightarrow> ('a \<Rightarrow> exn + 'b) \<Rightarrow> exn + 'b" where
  "bindE m f = (case m of Inl e \<Rightarrow> Inl e | Inr x \<Rightarrow> f x)"

text \<open>
  The body handling of \<^verbatim>\<open>fetchWithParse\<close>, lines 65 to 75, as a function of the
  \<^verbatim>\<open>content-type\<close> header (the empty string when there is none) and the body text.
\<close>

definition parseBody :: "(string \<Rightarrow> jsval option) \<Rightarrow> string \<Rightarrow> string \<Rightarrow> jsval" where
  "parseBody parse contentType bodyText =
     (if includesStr contentType ''application/json''
         \<or> startsWith bodyText ''{'' \<or> startsWith bodyText ''[''
      then
        (if bodyText \<noteq> [] then
           (case parse bodyText of Some parsed \<Rightarrow> parsed | None \<Rightarrow> JStr bodyText)
         else JNull)
      else JStr bodyText)"

text \<open>\<^verbatim>\<open>fetchWithParse(url, init)\<close>, lines 55 to 87.\<close>

definition fetchWithParse :: "runtime \<Rightarrow> request \<Rightarrow> exn + jsval" where
  "fetchWithParse rt req =
     (case fetch rt req of
        Inl e \<Rightarrow> Inl e
      | Inr response \<Rightarrow>
          (let bodyText = responseText response;
               contentType = (case contentTypeHeader response of None \<Rightarrow> [] | Some c \<Rightarrow> c);
               body = parseBody (JSON_parse rt) contentType bodyText
           in if \<not> (200 \<le> status response \<and> status response \<le> 299) then
                Inl (''HTTP '' @ toStr rt (JNum (Fin (real (status response)))) @ '' ''
                       @ statusText response @ '': ''
                       @ JSON_stringify rt (JObj [
                           (''status'', JNum (Fin (real (status response)))),
                           (''statusText'', JStr (statusText response)),
                           (''body'', body)]))
              else Inr body))"

text \<open>\<^verbatim>\<open>callLos\<close>, \<^verbatim>\<open>tryLos\<close> and \<^verbatim>\<open>xrplRpc\<close>, lines 237 to 249 and 289 to 294.\<close>

definition callLos :: "runtime \<Rightarrow> string \<Rightarrow> jsval \<Rightarrow> exn + jsval" where
  "callLos rt path query = fetchWithParse rt (Get (LOS_BASE_URL rt) path query)"

definition tryLos :: "runtime \<Rightarrow> string \<Rightarrow> jsval \<Rightarrow> jsval" where
  "tryLos rt path query = (case callLos rt path query of Inl e \<Rightarrow> JNull | Inr v \<Rightarrow> v)"

definition xrplRpc :: "runtime \<Rightarrow> string \<Rightarrow> jsval \<Rightarrow> exn + jsval" where
  "xrplRpc rt method params =
     fetchWithParse rt
       (Post (XRPL_RPC_URL rt)
          (JSON_stringify rt
             (JObj [(''method'', JStr method), (''params'', params), (''id'', JStr ''xrpl-mcp'')])))"

text \<open>
  The validator-reporting service is read by
  \<^verbatim>\<open>fetchWithParse(urlWithPathAndQuery(DATA_XRPL_BASE_URL, path))\<close>.
\<close>

definition vhsGet :: "runtime \<Rightarrow> string \<Rightarrow> exn + jsval" where
  "vhsGet rt path = fetchWithParse rt (Get (DATA_XRPL_BASE_URL rt) path JUndefined)"

text \<open>
  \<^verbatim>\<open>encodeURIComponent\<close> keeps the unreserved characters and writes every other character
  as the percent-escaped bytes of its UTF-8 encoding.
\<close>

definition encodeURIComponent :: "string \<Rightarrow> string" where
  "encodeURIComponent s =
     concat (map (\<lambda>c.
       if c \<in> set (upperLetters @ lowerLetters @ decimalDigits @ ''-_.!~*()'' @ [CHR 0x27])
       then [c]
       else concat (map (\<lambda>b. CHR ''%'' # toUpperCase (hexByte b)) (utf8char c))) s)"

text \<open>\<^verbatim>\<open>xrplResultEnvelope(payload)\<close>, lines 188 to 196.\<close>

definition xrplResultEnvelope :: "jsval \<Rightarrow> jsval" where
  "xrplResultEnvelope payload =
     (if \<not> truthy payload \<or> \<not> isObjectType payload then JObj []
      else if hasKey payload ''result'' \<and> truthy (optField payload ''result'')
              \<and> isObjectType (optField payload ''result'')
      then optField payload ''result''
      else payload)"

text \<open>\<^verbatim>\<open>parseXrpDrops(value)\<close>, lines 198 to 204.\<close>

definition parseXrpDrops :: "coercion \<Rightarrow> jsval \<Rightarrow> jsnum option" where
  "parseXrpDrops co v =
     (case toNum co v of None \<Rightarrow> None | Some drops \<Rightarrow> Some (jdiv drops (Fin 1000000)))"

section \<open>Freshness probe\<close>

text \<open>\<^verbatim>\<open>losFreshnessProbe()\<close>, lines 252 to 287; the loop over the candidate paths is the recursion.\<close>

record probe =
  latestIndexedLedger :: "jsnum option"
  sourcePath :: "string option"
  raw :: jsval

definition ledgerAliases :: "string list" where
  "ledgerAliases =
     [''latestIndexedLedger'', ''latest_indexed_ledger'', ''indexed_ledger'', ''ledger_index'',
      ''ledger'']"

definition candidates :: "string list" where
  "candidates = [''/ingestion-watermark'', ''/ingestion/status'', ''/status'', ''/health'', ''/meta'']"

fun probePaths :: "runtime \<Rightarrow> string list \<Rightarrow> probe" where
  "probePaths rt [] = \<lparr>latestIndexedLedger = None, sourcePath = None, raw = JNull\<rparr>"
| "probePaths rt (path # rest) =
     (let payload = tryLos rt path JUndefined
      in if \<not> truthy payload then probePaths rt rest
         else
           (case pickFirstNumber (coerce rt) payload ledgerAliases of
              Some n \<Rightarrow> \<lparr>latestIndexedLedger = Some n, sourcePath = Some path, raw = payload\<rparr>
            | None \<Rightarrow> probePaths rt rest))"

definition losFreshnessProbe :: "runtime \<Rightarrow> probe" where
  "losFreshnessProbe rt = probePaths rt candidates"

section \<open>Response envelope and tool results\<close>

text \<open>
  \<^verbatim>\<open>toolResult(data)\<close> wraps the JSON text of its argument and \<^verbatim>\<open>toolError(error)\<close> wraps
  the message with the flag \<^verbatim>\<open>isError\<close> (lines 90 to 112); the composite handlers give
  \<^verbatim>\<open>toolResult\<close> an envelope. The result of a handler is therefore one of the two below.
  The rendering to text is not modelled.
\<close>

text \<open>
  A provenance record \<^verbatim>\<open>{system, method, at}\<close>; its fields \<^verbatim>\<open>method\<close> and \<^verbatim>\<open>at\<close> are
  \<open>viaMethod\<close> and \<open>atTime\<close> here.
\<close>

record source =
  system :: string
  viaMethod :: string
  atTime :: string

record freshness =
  asOfLedger :: jsval
  asOfTime :: string

record envelope =
  data :: jsval
  sources :: "source list"
  freshness :: freshness
  warnings :: "string list"

datatype toolresult = ToolResult envelope | ToolError string

definition toolError :: "exn \<Rightarrow> toolresult" where
  "toolError message = ToolError message"

text \<open>
  \<^verbatim>\<open>envelope({data, sources, freshness, warnings})\<close>, lines 147 to 157; every caller passes
  the sources, the warnings and \<^verbatim>\<open>asOfTime\<close>, and passes \<^verbatim>\<open>asOfLedger\<close> or leaves it
  \<^verbatim>\<open>undefined\<close>.
\<close>

definition mkEnvelope ::
  "runtime \<Rightarrow> jsval \<Rightarrow> source list \<Rightarrow> jsval \<Rightarrow> string option \<Rightarrow> string list \<Rightarrow> envelope" where
  "mkEnvelope rt d srcs ledger time warns =
     \<lparr>data = d, sources = srcs,
      freshness = \<lparr>asOfLedger = nullish ledger JNull,
                   asOfTime = (case time of None \<Rightarrow> nowIso rt | Some t \<Rightarrow> t)\<rparr>,
      warnings = warns\<rparr>"

definition toToolEnvelope ::
  "runtime \<Rightarrow> jsval \<Rightarrow> source list \<Rightarrow> jsval \<Rightarrow> string option \<Rightarrow> string list \<Rightarrow> toolresult" where
  "toToolEnvelope rt d srcs ledger time warns = ToolResult (mkEnvelope rt d srcs ledger time warns)"

text \<open>
  Every composite handler is \<^verbatim>\<open>try { ... } catch (error) { return toolError(error); }\<close>:
  the body either returns a result or throws.
\<close>

definition catching :: "exn + toolresult \<Rightarrow> toolresult" where
  "catching body = (case body of Inl error \<Rightarrow> toolError error | Inr result \<Rightarrow> result)"

text \<open>
  A provenance record stamped with \<^verbatim>\<open>nowIso()\<close>; the readings of the clock within one call
  are taken to be equal.
\<close>

definition src :: "runtime \<Rightarrow> string \<Rightarrow> string \<Rightarrow> source" where
  "src rt sys meth = \<lparr>system = sys, viaMethod = meth, atTime = nowIso rt\<rparr>"

section \<open>Composite tool handlers\<close>

text \<open>
  Each handler is written as in the source: the upstream calls in their order, the mandatory
  ones propagating their failure and the optional ones swallowing it, then the derivation of
  the payload. Helpers for what the handlers share:
  \<^item> \<^verbatim>\<open>String(v)\<close> and the interpolation of a value into a template literal are the
    value itself for a string and the runtime's conversion otherwise;
  \<^item> \<^verbatim>\<open>xs.slice(0, n)\<close> and \<^verbatim>\<open>xs.slice(-n)\<close> on an array;
  \<^item> \<^verbatim>\<open>xs.reduce(f, init)\<close> with a callback that may throw;
  \<^item> \<^verbatim>\<open>for (const row of v)\<close> runs over the elements of an array and over the characters
    of a string, and throws for every other value that can be met there.
\<close>

definition String :: "runtime \<Rightarrow> jsval \<Rightarrow> string" where
  "String rt v = (case v of JStr s \<Rightarrow> s | _ \<Rightarrow> toStr rt v)"

definition natNum :: "nat \<Rightarrow> jsval" where
  "natNum n = JNum (Fin (real n))"

definition sliceFirst :: "nat \<Rightarrow> jsval list \<Rightarrow> jsval list" where
  "sliceFirst n xs = take n xs"

definition sliceLast :: "nat \<Rightarrow> jsval list \<Rightarrow> jsval list" where
  "sliceLast n xs = drop (length xs - n) xs"

fun reduceE :: "('a \<Rightarrow> jsval \<Rightarrow> exn + 'a) \<Rightarrow> 'a \<Rightarrow> jsval list \<Rightarrow> exn + 'a" where
  "reduceE f acc [] = Inr acc"
| "reduceE f acc (x # xs) = (case f acc x of Inl e \<Rightarrow> Inl e | Inr acc' \<Rightarrow> reduceE f acc' xs)"

fun iterate :: "string \<Rightarrow> jsval \<Rightarrow> exn + jsval list" where
  "iterate name (JArr xs) = Inr xs"
| "iterate name (JStr s) = Inr (map (\<lambda>c. JStr [c]) s)"
| "iterate name v = Inl (name @ '' is not iterable'')"

text \<open>
  Parts of the payloads that no property below speaks of are parameters, collected in \<open>dv\<close>.
  Each stands for the source lines named here and may throw where those lines may:
  \<^item> \<open>explainTx\<close>: lines 931 to 975 and the object of lines 981 to 1006 of \<^verbatim>\<open>tx_explain\<close>,
    from the transaction hash, the enrichment record and the \<^verbatim>\<open>tx\<close> result;
  \<^item> \<open>topTokensByAbsBalance\<close>: lines 1046 to 1054 of \<^verbatim>\<open>account_overview\<close>, from \<^verbatim>\<open>lines\<close>;
  \<^item> \<open>txTypeHistogram\<close>: the counting of transaction types in the loop of lines 1058 to 1066
    (lines 1060 and 1061), which does not throw;
  \<^item> \<open>byOperator\<close>: lines 1356 to 1360 of \<^verbatim>\<open>validator_set_overview\<close>, from the list;
  \<^item> \<open>txTypes\<close>: lines 1494 to 1498 of \<^verbatim>\<open>search_transactions\<close>, from the rows.
\<close>

record derived =
  explainTx :: "string \<Rightarrow> jsval \<Rightarrow> jsval \<Rightarrow> exn + jsval"
  topTokensByAbsBalance :: "jsval \<Rightarrow> exn + jsval"
  txTypeHistogram :: "jsval list \<Rightarrow> jsval"
  byOperator :: "jsval list \<Rightarrow> exn + jsval"
  txTypes :: "jsval list \<Rightarrow> exn + jsval"

subsection \<open>\<^verbatim>\<open>network_overview\<close>, lines 778 to 838\<close>

definition validatedLedgerIndexOf :: "coercion \<Rightarrow> jsval \<Rightarrow> jsnum option" where
  "validatedLedgerIndexOf co validatedLedger =
     orNum (toNum co (optField validatedLedger ''seq''))
       (orNum (toNum co (optField validatedLedger ''ledger_index''))
          (orNum (toNum co (optField validatedLedger ''index'')) None))"

text \<open>
  Lines 795 to 797:
  \<^verbatim>\<open>validatedLedgerIndex && losFreshness.latestIndexedLedger !== null ? ... : null\<close>.
\<close>

definition ledgerLag :: "jsnum option \<Rightarrow> jsnum option \<Rightarrow> jsnum option" where
  "ledgerLag validatedLedgerIndex latest =
     (case (validatedLedgerIndex, latest) of
        (Some v, Some l) \<Rightarrow> if truthy (JNum v) then Some (jsub v l) else None
      | _ \<Rightarrow> None)"

definition network_overview :: "runtime \<Rightarrow> toolresult" where
  "network_overview rt = catching (
     bindE (xrplRpc rt ''server_info'' (JArr [JObj []])) (\<lambda>serverInfoRaw.
       let serverInfo = nullish (optField (xrplResultEnvelope serverInfoRaw) ''info'')
                          (xrplResultEnvelope serverInfoRaw);
           validatedLedger = nullish (optField serverInfo ''validated_ledger'') (JObj []);
           validatedLedgerIndex = validatedLedgerIndexOf (coerce rt) validatedLedger;
           losFreshness = losFreshnessProbe rt;
           lag = ledgerLag validatedLedgerIndex (latestIndexedLedger losFreshness);
           warns = (if latestIndexedLedger losFreshness = None
                    then [''LOS ingestion watermark endpoint was not detected from known paths.'']
                    else [])
       in Inr (toToolEnvelope rt
            (JObj [
               (''network'', nullish (optField serverInfo ''network_id'')
                               (nullish (optField serverInfo ''network'') (JStr ''mainnet''))),
               (''validatedLedgerIndex'', numOrNull validatedLedgerIndex),
               (''validatedLedgerCloseTime'',
                  nullish (optField validatedLedger ''close_time_human'')
                    (nullish (optField validatedLedger ''close_time_iso'') JNull)),
               (''serverHealthSummary'', JObj [
                  (''serverState'', nullish (optField serverInfo ''server_state'') JNull),
                  (''completeLedgers'', nullish (optField serverInfo ''complete_ledgers'') JNull),
                  (''loadFactor'', numOrNull (toNum (coerce rt) (optField serverInfo ''load_factor''))),
                  (''peers'', numOrNull (toNum (coerce rt) (optField serverInfo ''peers''))),
                  (''warnings'', nullish (optField serverInfo ''warnings'') (JArr []))]),
               (''keyRates'', JObj [
                  (''ledgerLagVsLos'', numOrNull lag),
                  (''loadFactor'', numOrNull (toNum (coerce rt) (optField serverInfo ''load_factor''))),
                  (''peers'', numOrNull (toNum (coerce rt) (optField serverInfo ''peers'')))]),
               (''dataFreshness'', JObj [
                  (''losLatestIndexedLedger'', numOrNull (latestIndexedLedger losFreshness)),
                  (''losSourcePath'',
                     (case sourcePath losFreshness of None \<Rightarrow> JNull | Some p \<Rightarrow> JStr p))])])
            [src rt ''rippled'' ''server_info'', src rt ''LOS'' ''ingestion watermark probe'']
            (numOrNull validatedLedgerIndex) (Some (nowIso rt)) warns)))"

subsection \<open>\<^verbatim>\<open>ledger_summary\<close>, lines 840 to 913\<close>

text \<open>The arguments are \<^verbatim>\<open>undefined\<close> when the caller leaves them out.\<close>

definition ledger_summary :: "runtime \<Rightarrow> jsval \<Rightarrow> jsval \<Rightarrow> toolresult" where
  "ledger_summary rt ledger_index ledger_hash = catching (
     let params = JObj ([(''transactions'', JBool False), (''expand'', JBool False)]
                    @ (if ledger_index \<noteq> JUndefined then [(''ledger_index'', ledger_index)] else [])
                    @ (if truthy ledger_hash then [(''ledger_hash'', ledger_hash)] else []))
     in bindE (xrplRpc rt ''ledger'' (JArr [params])) (\<lambda>ledgerRaw.
       let ledgerResult = xrplResultEnvelope ledgerRaw;
           ledger = nullish (optField ledgerResult ''ledger'') (JObj []);
           canonicalIndex =
             orNum (toNum (coerce rt) (optField ledger ''ledger_index''))
               (orNum (toNum (coerce rt) (optField ledger ''ledger_index_min''))
                  (orNum (toNum (coerce rt) (optField ledgerResult ''ledger_index'')) None));
           losArtifacts =
             (case canonicalIndex of
                Some n \<Rightarrow> tryLos rt (''/ledger/'' @ String rt (JNum n)) JUndefined
              | None \<Rightarrow>
                  if truthy ledger_hash
                  then tryLos rt (''/ledger/'' @ String rt ledger_hash) JUndefined
                  else JNull);
           warns = (if \<not> truthy losArtifacts
                    then [''No LOS artifact endpoint matched /ledger/{index|hash}.'']
                    else [])
       in Inr (toToolEnvelope rt
            (JObj [
               (''ledgerIndex'', numOrNull canonicalIndex),
               (''ledgerHash'', nullish (optField ledger ''ledger_hash'')
                                  (nullish (optField ledger ''hash'') (nullish ledger_hash JNull))),
               (''closeTime'', nullish (optField ledger ''close_time_human'')
                                 (nullish (optField ledger ''close_time_iso'')
                                    (nullish (optField ledgerResult ''close_time_human'') JNull))),
               (''txCount'', numOrNull (orNum (toNum (coerce rt) (optField ledger ''txn_count''))
                                          (toNum (coerce rt) (optField ledgerResult ''txn_count'')))),
               (''feeMetrics'', JObj [
                  (''baseFeeXrp'', numOrNull (parseXrpDrops (coerce rt) (optField ledger ''base_fee''))),
                  (''reserveBaseXrp'',
                     numOrNull (parseXrpDrops (coerce rt) (optField ledger ''reserve_base''))),
                  (''reserveIncrementXrp'',
                     numOrNull (parseXrpDrops (coerce rt) (optField ledger ''reserve_inc'')))]),
               (''representativeTxHashes'',
                  (if isArray (optField ledger ''transactions'')
                   then JArr (sliceFirst 5 (elements (optField ledger ''transactions'')))
                   else JArr [])),
               (''losArtifacts'', losArtifacts)])
            [src rt ''rippled'' ''ledger'', src rt ''LOS'' ''GET /ledger/{index|hash} probe'']
            (numOrNull canonicalIndex) (Some (nowIso rt)) warns)))"

subsection \<open>\<^verbatim>\<open>tx_explain\<close>, lines 915 to 1021\<close>

definition tx_explain :: "runtime \<Rightarrow> derived \<Rightarrow> string \<Rightarrow> toolresult" where
  "tx_explain rt dv tx_hash = catching (
     let losTx0 = tryLos rt ''/transactions''
                    (JObj [(''tx_hash'', JStr tx_hash), (''hash'', JStr tx_hash), (''size'', natNum 1)]);
         losTx = (if isArray (optField losTx0 ''transactions'')
                     \<and> length (elements (optField losTx0 ''transactions'')) > 0
                  then hd (elements (optField losTx0 ''transactions''))
                  else losTx0)
     in bindE (xrplRpc rt ''tx'' (JArr [JObj [(''transaction'', JStr tx_hash)]])) (\<lambda>txRaw.
       let txResult = xrplResultEnvelope txRaw
       in bindE (explainTx dv tx_hash losTx txResult) (\<lambda>payload.
         let warns = (if \<not> truthy losTx
                      then [''LOS enriched transaction record not found; classification is rippled-derived.'']
                      else [])
         in Inr (toToolEnvelope rt payload
              [src rt ''LOS'' ''GET /transactions'', src rt ''rippled'' ''tx'']
              (numOrNull (toNum (coerce rt) (optField txResult ''ledger_index'')))
              (Some (nowIso rt)) warns))))"

subsection \<open>\<^verbatim>\<open>account_overview\<close>, lines 1023 to 1118\<close>

text \<open>
  The \<^verbatim>\<open>Map\<close> of counterparties keeps its keys in insertion order and compares them by
  \<^verbatim>\<open>SameValueZero\<close>: primitives by value, objects and arrays by identity, and two
  values parsed from different places of a JSON text are never the same object.
\<close>

definition sameKey :: "jsval \<Rightarrow> jsval \<Rightarrow> bool" where
  "sameKey a b = (\<not> isObjectType a \<and> a = b)"

fun bumpCount :: "jsval \<Rightarrow> (jsval \<times> nat) list \<Rightarrow> (jsval \<times> nat) list" where
  "bumpCount cp [] = [(cp, 1)]"
| "bumpCount cp ((k, n) # rest) =
     (if sameKey cp k then (k, n + 1) # rest else (k, n) # bumpCount cp rest)"

text \<open>The loop body of lines 1058 to 1066 without the histogram statements.\<close>

definition countCounterparty ::
  "string \<Rightarrow> (jsval \<times> nat) list \<Rightarrow> jsval \<Rightarrow> exn + (jsval \<times> nat) list" where
  "countCounterparty account counterparties row =
     bindE (getProp row ''tx_json'') (\<lambda>txJson.
       bindE (if truthy txJson then Inr txJson else getProp row ''tx'') (\<lambda>t.
         let tx = orElse t (JObj []);
             cp = orElse (optField tx ''Destination'') (optField tx ''Account'')
         in if truthy cp \<and> cp \<noteq> JStr account
            then Inr (bumpCount cp counterparties)
            else Inr counterparties))"

text \<open>
  Lines 1067 to 1070: \<^verbatim>\<open>sort((a, b) => b[1] - a[1])\<close> is a stable sort by falling count.
\<close>

definition recentCounterparties :: "string \<Rightarrow> jsval list \<Rightarrow> exn + jsval list" where
  "recentCounterparties account txs =
     bindE (reduceE (countCounterparty account) [] txs) (\<lambda>counterparties.
       Inr (map (\<lambda>(address, count). JObj [(''address'', address), (''interactions'', natNum count)])
              (take 10 (sort_key (\<lambda>(address, count). - int count) counterparties))))"

text \<open>Lines 1072 to 1081.\<close>

definition riskIndicators :: "coercion \<Rightarrow> nat \<Rightarrow> jsval \<Rightarrow> string list" where
  "riskIndicators co trustlineCount accountData =
     (if trustlineCount > 250
      then [''High trustline count may indicate hub/exchange behavior.''] else [])
     @ (if jgt (numOr0 co (optField accountData ''OwnerCount'')) (Fin 1000)
        then [''High owner count; reserve pressure likely high.''] else [])
     @ (if numOr0 co (optField accountData ''Flags'') \<noteq> Fin 0
        then [''Account has non-zero flags; inspect issuer permissions.''] else [])"

definition account_overview :: "runtime \<Rightarrow> derived \<Rightarrow> string \<Rightarrow> jsval \<Rightarrow> toolresult" where
  "account_overview rt dv account options = catching (
     let txLimit = orNum (toNum (coerce rt) (optField options ''tx_limit'')) (Some (Fin 100));
         linesLimit = orNum (toNum (coerce rt) (optField options ''lines_limit'')) (Some (Fin 400))
     in
     bindE (xrplRpc rt ''account_info''
              (JArr [JObj [(''account'', JStr account), (''ledger_index'', JStr ''validated'')]]))
       (\<lambda>infoRaw.
     bindE (xrplRpc rt ''account_lines''
              (JArr [JObj [(''account'', JStr account), (''ledger_index'', JStr ''validated''),
                           (''limit'', numOrNull linesLimit)]]))
       (\<lambda>linesRaw.
     bindE (xrplRpc rt ''account_tx''
              (JArr [JObj [(''account'', JStr account), (''ledger_index_min'', JNum (Fin (- 1))),
                           (''ledger_index_max'', JNum (Fin (- 1))), (''limit'', numOrNull txLimit)]]))
       (\<lambda>txRaw.
       let accountData = nullish (optField (xrplResultEnvelope infoRaw) ''account_data'') (JObj []);
           accountLines = nullish (optField (xrplResultEnvelope linesRaw) ''lines'') (JArr []);
           txs = nullish (optField (xrplResultEnvelope txRaw) ''transactions'') (JArr []);
           trustlineCount = (if isArray accountLines then length (elements accountLines) else 0)
       in
       bindE (topTokensByAbsBalance dv accountLines) (\<lambda>topTokens.
       bindE (iterate ''txs'' txs) (\<lambda>rows.
       bindE (recentCounterparties account rows) (\<lambda>counterparties.
         let risks = riskIndicators (coerce rt) trustlineCount accountData;
             ownerCount = numOr0 (coerce rt) (optField accountData ''OwnerCount'');
             reserveEstimateXrp = jadd (Fin 1) (jmul ownerCount (Fin (2 / 10)))
         in Inr (toToolEnvelope rt
              (JObj [
                 (''account'', JStr account),
                 (''xrpBalance'', numOrNull (parseXrpDrops (coerce rt) (optField accountData ''Balance''))),
                 (''ownerCount'', JNum ownerCount),
                 (''reserveEstimateXrp'', JNum reserveEstimateXrp),
                 (''flags'', nullish (optField accountData ''Flags'') (JNum (Fin 0))),
                 (''trustlines'', JObj [
                    (''count'', natNum trustlineCount),
                    (''topTokensByBalance'', topTokens)]),
                 (''recentActivity'', JObj [
                    (''txTypeHistogram'', txTypeHistogram dv rows),
                    (''recentCounterparties'', JArr counterparties)]),
                 (''riskIndicators'', JArr (map JStr risks))])
              [src rt ''rippled'' ''account_info'', src rt ''rippled'' ''account_lines'',
               src rt ''rippled'' ''account_tx'']
              (numOrNull (toNum (coerce rt)
                 (optField (xrplResultEnvelope infoRaw) ''ledger_current_index'')))
              (Some (nowIso rt)) []))))))))"

subsection \<open>\<^verbatim>\<open>token_overview\<close>, lines 1120 to 1201\<close>

definition token_overview :: "runtime \<Rightarrow> string \<Rightarrow> string \<Rightarrow> jsval \<Rightarrow> toolresult" where
  "token_overview rt issuer currency options = catching (
     case tokenIdFromIssuerCurrency issuer currency of
       None \<Rightarrow> Inr (toolError ''Unable to normalize currency to XRPL 160-bit code.'')
     | Some tokenID \<Rightarrow>
       let tokenMeta = tryLos rt (''/tokens/'' @ encodeURIComponent tokenID) JUndefined;
           txWindowSize = orNum (toNum (coerce rt) (optField options ''tx_window_size'')) (Some (Fin 200));
           tokenTx = tryLos rt ''/transactions''
                       (JObj [(''token'', JStr tokenID), (''transactionType'', JStr ''transfer''),
                              (''size'', numOrNull txWindowSize), (''sort_field'', JStr ''timestamp''),
                              (''sort_order'', JStr ''desc'')])
       in
       bindE (xrplRpc rt ''book_offers''
                (JArr [JObj [
                   (''taker_gets'', JObj [(''currency'', JStr currency), (''issuer'', JStr issuer)]),
                   (''taker_pays'', JObj [(''currency'', JStr ''XRP'')])]]))
         (\<lambda>book.
         let amm = (case xrplRpc rt ''amm_info''
                           (JArr [JObj [
                              (''asset'', JObj [(''currency'', JStr currency), (''issuer'', JStr issuer)]),
                              (''asset2'', JObj [(''currency'', JStr ''XRP'')])]])
                    of Inl e \<Rightarrow> JNull | Inr v \<Rightarrow> v);
             offers = nullish (optField (xrplResultEnvelope book) ''offers'') (JArr []);
             bestAsk = (if isArray offers \<and> length (elements offers) > 0
                        then hd (elements offers) else JNull);
             warns = (if \<not> truthy tokenMeta
                      then [''LOS token metadata not found for normalized tokenID.''] else [])
         in Inr (toToolEnvelope rt
              (JObj [
                 (''token'', JObj [(''issuer'', JStr issuer), (''currency'', JStr currency),
                                   (''tokenID'', JStr tokenID)]),
                 (''metadata'', nullish (optField tokenMeta ''metadata'') (nullish tokenMeta JNull)),
                 (''trustlineAndHolderStats'',
                    nullish (optField tokenMeta ''holderStats'')
                      (nullish (optField tokenMeta ''holders'') JNull)),
                 (''liquiditySummary'', JObj [
                    (''orderbookBestAsk'', bestAsk),
                    (''amm'', nullish (optField (xrplResultEnvelope amm) ''amm'')
                                (nullish (xrplResultEnvelope amm) JNull))]),
                 (''recentActivity'', JObj [
                    (''transferSampleSize'',
                       (if isArray (optField tokenTx ''transactions'')
                        then natNum (length (elements (optField tokenTx ''transactions'')))
                        else JNull)),
                    (''sample'',
                       (if isArray (optField tokenTx ''transactions'')
                        then JArr (sliceFirst 10 (elements (optField tokenTx ''transactions'')))
                        else tokenTx))])])
              [src rt ''LOS'' ''GET /tokens/{tokenID}'', src rt ''LOS'' ''GET /transactions'',
               src rt ''rippled'' ''book_offers'', src rt ''rippled'' ''amm_info'']
              (numOrNull (toNum (coerce rt) (optField (xrplResultEnvelope book) ''ledger_index'')))
              (Some (nowIso rt)) warns)))"

subsection \<open>\<^verbatim>\<open>market_snapshot\<close>, lines 1203 to 1275\<close>

text \<open>Lines 1236 to 1238: the two sums over the trade sample and their quotient.\<close>

definition vwapNumerator :: "coercion \<Rightarrow> jsval list \<Rightarrow> exn + jsnum" where
  "vwapNumerator co recentTrades =
     reduceE (\<lambda>sum t.
        bindE (getProp t ''price'') (\<lambda>price.
          bindE (getProp t ''amount'') (\<lambda>amount.
            Inr (jadd sum (jmul (numOr0 co price) (numOr0 co amount))))))
       (Fin 0) recentTrades"

definition vwapDenominator :: "coercion \<Rightarrow> jsval list \<Rightarrow> exn + jsnum" where
  "vwapDenominator co recentTrades =
     reduceE (\<lambda>sum t.
        bindE (getProp t ''amount'') (\<lambda>amount. Inr (jadd sum (numOr0 co amount))))
       (Fin 0) recentTrades"

definition vwapOf :: "coercion \<Rightarrow> jsval list \<Rightarrow> exn + jsnum option" where
  "vwapOf co recentTrades =
     bindE (vwapNumerator co recentTrades) (\<lambda>numerator.
       bindE (vwapDenominator co recentTrades) (\<lambda>denominator.
         Inr (if jgt denominator (Fin 0) then Some (jdiv numerator denominator) else None)))"

definition market_snapshot :: "runtime \<Rightarrow> jsval \<Rightarrow> jsval \<Rightarrow> jsval \<Rightarrow> toolresult" where
  "market_snapshot rt base quote options = catching (
     let window = String rt (orElse (optField options ''window'') (JStr ''1h''));
         txSize = orNum (toNum (coerce rt) (optField options ''size'')) (Some (Fin 200))
     in
     bindE (xrplRpc rt ''book_offers''
              (JArr [JObj [(''taker_gets'', base), (''taker_pays'', quote), (''limit'', natNum 50)]]))
       (\<lambda>bookRaw.
       let bookResult = xrplResultEnvelope bookRaw;
           offers = nullish (optField bookResult ''offers'') (JArr []);
           best = (if isArray offers \<and> length (elements offers) \<noteq> 0
                   then hd (elements offers) else JNull);
           ammRaw = (case xrplRpc rt ''amm_info'' (JArr [JObj [(''asset'', base), (''asset2'', quote)]])
                     of Inl e \<Rightarrow> JNull | Inr v \<Rightarrow> v);
           losTrades = tryLos rt ''/transactions''
                         (JObj [(''transactionType'', JStr ''dex-trade''), (''size'', numOrNull txSize),
                                (''sort_field'', JStr ''timestamp''), (''sort_order'', JStr ''desc'')]);
           recentTrades = (if isArray (optField losTrades ''transactions'')
                           then elements (optField losTrades ''transactions'') else [])
       in
       bindE (vwapOf (coerce rt) recentTrades) (\<lambda>vwap.
         let warns = (if length recentTrades = 0
                      then [''No LOS trade samples returned for VWAP estimate.''] else []);
             quality = (if truthy (optField best ''quality'')
                        then JNum (Number (coerce rt) (optField best ''quality'')) else JNull)
         in Inr (toToolEnvelope rt
              (JObj [
                 (''orderbook'', JObj [
                    (''bestBidAskProxy'', best),
                    (''spread'', quality),
                    (''mid'', quality),
                    (''offerCount'',
                       (if isArray offers then natNum (length (elements offers)) else natNum 0))]),
                 (''amm'', nullish (optField (xrplResultEnvelope ammRaw) ''amm'')
                             (nullish (xrplResultEnvelope ammRaw) JNull)),
                 (''recentTrades'', JObj [
                    (''window'', JStr window),
                    (''count'', natNum (length recentTrades)),
                    (''vwap'', numOrNull vwap),
                    (''sample'', JArr (sliceFirst 20 recentTrades))])])
              [src rt ''rippled'' ''book_offers'', src rt ''rippled'' ''amm_info'',
               src rt ''LOS'' ''GET /transactions?transactionType=dex-trade'']
              (numOrNull (toNum (coerce rt) (optField bookResult ''ledger_index'')))
              (Some (nowIso rt)) warns))))"

subsection \<open>\<^verbatim>\<open>amm_overview\<close>, lines 1277 to 1337\<close>

definition amm_overview :: "runtime \<Rightarrow> jsval \<Rightarrow> jsval \<Rightarrow> jsval \<Rightarrow> jsval \<Rightarrow> toolresult" where
  "amm_overview rt amm_id assetA assetB options = catching (
     let params = (if truthy amm_id then JObj [(''amm_account'', amm_id)]
                   else JObj [(''asset'', assetA), (''asset2'', assetB)])
     in
     bindE (xrplRpc rt ''amm_info'' (JArr [params])) (\<lambda>ammRaw.
       let amm = nullish (optField (xrplResultEnvelope ammRaw) ''amm'') (xrplResultEnvelope ammRaw);
           txSize = orNum (toNum (coerce rt) (optField options ''size'')) (Some (Fin 200));
           losSwaps = tryLos rt ''/transactions''
                        (JObj [(''transactionType'', JStr ''dex-trade''), (''size'', numOrNull txSize),
                               (''sort_field'', JStr ''timestamp''), (''sort_order'', JStr ''desc'')]);
           swaps = (if isArray (optField losSwaps ''transactions'')
                    then elements (optField losSwaps ''transactions'') else [])
       in
       bindE (reduceE (\<lambda>sum row.
                bindE (getProp row ''amount'') (\<lambda>amount.
                  Inr (jadd sum (jabs (numOr0 (coerce rt) amount)))))
              (Fin 0) swaps)
         (\<lambda>volume.
         Inr (toToolEnvelope rt
           (JObj [
              (''amm'', amm),
              (''recentSwaps'', JObj [
                 (''count'', natNum (length swaps)),
                 (''volume'', JNum volume),
                 (''sample'', JArr (sliceFirst 20 swaps))]),
              (''priceImpactHooks'', JObj [
                 (''note'', JStr ''Use reserves plus candidate trade size to estimate slippage.'')])])
           [src rt ''rippled'' ''amm_info'',
            src rt ''LOS'' ''GET /transactions?transactionType=dex-trade'']
           (numOrNull (toNum (coerce rt) (optField (xrplResultEnvelope ammRaw) ''ledger_index'')))
           (Some (nowIso rt)) []))))"

subsection \<open>\<^verbatim>\<open>validator_set_overview\<close>, lines 1339 to 1381\<close>

definition validator_set_overview :: "runtime \<Rightarrow> derived \<Rightarrow> jsval \<Rightarrow> toolresult" where
  "validator_set_overview rt dv options = catching (
     let group = (if truthy (optField options ''group'')
                  then ''/'' @ encodeURIComponent (String rt (optField options ''group''))
                  else [])
     in
     bindE (vhsGet rt (''/v1/network/validators'' @ group)) (\<lambda>validatorsRaw.
       let validators = (if isArray (optField validatorsRaw ''validators'')
                         then elements (optField validatorsRaw ''validators'')
                         else if isArray validatorsRaw then elements validatorsRaw
                         else [])
       in
       bindE (byOperator dv validators) (\<lambda>operators.
         Inr (toToolEnvelope rt
           (JObj [
              (''validatorCount'', natNum (length validators)),
              (''byOperator'', operators),
              (''currentSet'', JArr (sliceFirst 200 validators)),
              (''notableEvents'', JObj [
                 (''note'', JStr ''Use repeated snapshots of this tool for 7/30/90 day diffing.'')])])
           [src rt ''VHS'' ''GET /v1/network/validators'']
           JUndefined (Some (nowIso rt)) []))))"

subsection \<open>\<^verbatim>\<open>validator_health\<close>, lines 1383 to 1434\<close>

definition sumReports :: "coercion \<Rightarrow> string \<Rightarrow> string \<Rightarrow> jsval list \<Rightarrow> exn + jsnum" where
  "sumReports co name altName recent =
     reduceE (\<lambda>sum r.
        bindE (getProp r name) (\<lambda>first.
          bindE (if truthy first then Inr first else getProp r altName) (\<lambda>v.
            Inr (jadd sum (numOr0 co v)))))
       (Fin 0) recent"

definition validator_health :: "runtime \<Rightarrow> string \<Rightarrow> jsval \<Rightarrow> toolresult" where
  "validator_health rt pubkey_or_node window = catching (
     bindE (vhsGet rt (''/v1/network/validator/'' @ encodeURIComponent pubkey_or_node))
       (\<lambda>validator.
     bindE (vhsGet rt (''/v1/network/validator/'' @ encodeURIComponent pubkey_or_node @ ''/reports''))
       (\<lambda>reports.
       let reportList = (if isArray (optField reports ''reports'')
                         then elements (optField reports ''reports'')
                         else if isArray reports then elements reports
                         else []);
           recent = sliceLast 30 reportList
       in
       bindE (sumReports (coerce rt) ''signed'' ''validations_signed'' recent) (\<lambda>signed.
       bindE (sumReports (coerce rt) ''missed'' ''validations_missed'' recent) (\<lambda>missed.
         let uptimeish = (if jgt (jadd signed missed) (Fin 0)
                          then Some (jdiv signed (jadd signed missed)) else None);
             warns = (if length reportList = 0
                      then [''Validator report history is empty for this key.''] else [])
         in Inr (toToolEnvelope rt
              (JObj [
                 (''validator'', validator),
                 (''window'', orElse window (JStr ''last-30-reports'')),
                 (''metrics'', JObj [
                    (''validationsSigned'', JNum signed),
                    (''validationsMissed'', JNum missed),
                    (''uptimeScore'', numOrNull uptimeish)]),
                 (''recentReports'', JArr recent)])
              [src rt ''VHS'' ''GET /v1/network/validator/{pubkey}'',
               src rt ''VHS'' ''GET /v1/network/validator/{pubkey}/reports'']
              JUndefined (Some (nowIso rt)) warns))))))"

subsection \<open>\<^verbatim>\<open>amendment_status\<close>, lines 1436 to 1474\<close>

definition amendment_status :: "runtime \<Rightarrow> jsval \<Rightarrow> toolresult" where
  "amendment_status rt network = catching (
     bindE (vhsGet rt ''/v1/network/amendments/info'') (\<lambda>vhInfo.
     bindE (if truthy network
            then vhsGet rt (''/v1/network/amendments/vote/'' @ encodeURIComponent (String rt network))
            else Inr JNull)
       (\<lambda>votes.
     bindE (xrplRpc rt ''server_info'' (JArr [JObj []])) (\<lambda>serverInfo.
       Inr (toToolEnvelope rt
         (JObj [
            (''enabledAmendments'',
               nullish (optField vhInfo ''enabled'') (nullish (optField vhInfo ''amendments'') vhInfo)),
            (''votingStatus'', votes),
            (''networkContext'', JObj [
               (''requested'', nullish network JNull),
               (''rippledNetwork'',
                  nullish (optField (optField (xrplResultEnvelope serverInfo) ''info'') ''network_id'')
                    JNull)])])
         [src rt ''VHS'' ''GET /v1/network/amendments/info'', src rt ''rippled'' ''server_info'']
         JUndefined (Some (nowIso rt)) [])))))"

subsection \<open>\<^verbatim>\<open>search_transactions\<close>, lines 1476 to 1518\<close>

text \<open>
  \<^verbatim>\<open>{...filters, marker: m, size: n}\<close>: the properties of \<^verbatim>\<open>filters\<close>, which the input
  schema makes an object, with the two names overwritten in place or else added at the end.
  The argument \<^verbatim>\<open>size\<close> is \<open>pageSize\<close> here.
\<close>

fun ownProps :: "jsval \<Rightarrow> (string \<times> jsval) list" where
  "ownProps (JObj kvs) = kvs"
| "ownProps _ = []"

fun setProp :: "string \<Rightarrow> jsval \<Rightarrow> (string \<times> jsval) list \<Rightarrow> (string \<times> jsval) list" where
  "setProp name v [] = [(name, v)]"
| "setProp name v ((k, w) # rest) =
     (if k = name then (k, v) # rest else (k, w) # setProp name v rest)"

definition search_transactions ::
  "runtime \<Rightarrow> derived \<Rightarrow> jsval \<Rightarrow> jsval \<Rightarrow> jsval \<Rightarrow> toolresult" where
  "search_transactions rt dv filters cursor pageSize = catching (
     let query = JObj (setProp ''size''
                         (nullish pageSize (nullish (optField filters ''size'') (natNum 200)))
                         (setProp ''marker'' (orElse cursor (optField filters ''marker''))
                            (ownProps filters)))
     in
     bindE (callLos rt ''/transactions'' query) (\<lambda>payload.
       let rows = (if isArray (optField payload ''transactions'')
                   then elements (optField payload ''transactions'')
                   else if isArray payload then elements payload
                   else [])
       in
       bindE (txTypes dv rows) (\<lambda>histogram.
       bindE (reduceE (\<lambda>sum row.
                bindE (getProp row ''amount'') (\<lambda>amount.
                  Inr (jadd sum (numOr0 (coerce rt) amount))))
              (Fin 0) rows)
         (\<lambda>totalAmount.
         Inr (toToolEnvelope rt
           (JObj [
              (''results'', JArr rows),
              (''cursor'', nullish (optField payload ''marker'')
                             (nullish (optField payload ''next'') JNull)),
              (''aggregates'', JObj [
                 (''count'', natNum (length rows)),
                 (''txTypeHistogram'', histogram),
                 (''totalAmount'', JNum totalAmount)])])
           [src rt ''LOS'' ''GET /transactions'']
           JUndefined (Some (nowIso rt)) [])))))"

subsection \<open>\<^verbatim>\<open>resolve_entities\<close>, lines 1520 to 1566\<close>

text \<open>
  The four regular expressions of lines 1536 to 1545, each anchored at both ends:
  \<^verbatim>\<open>[A-Fa-f0-9]{64}\<close>, \<^verbatim>\<open>r[1-9A-HJ-NP-Za-km-z]{24,34}\<close>,
  \<^verbatim>\<open>[A-Fa-f0-9]{40}\.r[1-9A-HJ-NP-Za-km-z]{24,34}\<close> and \<^verbatim>\<open>[0-9]+\<close>.
\<close>

definition isAddressChar :: "char \<Rightarrow> bool" where
  "isAddressChar c = (c \<in> set ''123456789ABCDEFGHJKLMNPQRSTUVWXYZabcdefghijkmnopqrstuvwxyz'')"

definition isDigit :: "char \<Rightarrow> bool" where
  "isDigit c = (c \<in> set decimalDigits)"

definition matchesTxHash :: "string \<Rightarrow> bool" where
  "matchesTxHash v = (length v = 64 \<and> list_all isHexChar v)"

definition matchesAccount :: "string \<Rightarrow> bool" where
  "matchesAccount v =
     (case v of
        [] \<Rightarrow> False
      | c # rest \<Rightarrow> c = CHR ''r'' \<and> 24 \<le> length rest \<and> length rest \<le> 34
                     \<and> list_all isAddressChar rest)"

definition matchesTokenId :: "string \<Rightarrow> bool" where
  "matchesTokenId v =
     (length (take 40 v) = 40 \<and> list_all isHexChar (take 40 v)
      \<and> take 1 (drop 40 v) = ''.'' \<and> matchesAccount (drop 41 v))"

definition matchesDigits :: "string \<Rightarrow> bool" where
  "matchesDigits v = (v \<noteq> [] \<and> list_all isDigit v)"

text \<open>
  \<^verbatim>\<open>Number(value)\<close> of a string of decimal digits is the number they write in base ten
  (exactly so up to 2 to the power 53, beyond which a double rounds it).
\<close>

definition digitsToNat :: "string \<Rightarrow> nat" where
  "digitsToNat v =
     foldl (\<lambda>acc c. 10 * acc + (case map_of (zip decimalDigits [0..<10]) c of Some d \<Rightarrow> d | None \<Rightarrow> 0))
       0 v"

text \<open>
  The classification of lines 1529 to 1551: the entity type, the normalized value and the
  suggested tools.
\<close>

definition classify :: "string \<Rightarrow> string \<times> jsval \<times> string list" where
  "classify input =
     (let v = trim input
      in if matchesTxHash v then
           (''tx_hash'', JStr (toUpperCase v), [''tx_explain'', ''xrpl_tx''])
         else if matchesAccount v then
           (''account'', JStr v, [''account_overview'', ''xrpl_account_info''])
         else if matchesTokenId v then
           (''token_id'', JStr (toUpperCase v), [''token_overview'', ''los_get_token''])
         else if matchesDigits v then
           (''ledger_index'', natNum (digitsToNat v), [''ledger_summary'', ''xrpl_ledger''])
         else if includesStr v ''.'' then
           (''domain_or_host'', JStr (toLowerCase v), [''xrplmeta_get'', ''validator_set_overview''])
         else (''unknown'', JStr v, []))"

definition resolve_entities :: "runtime \<Rightarrow> string \<Rightarrow> toolresult" where
  "resolve_entities rt input = catching (
     case classify input of (entityType, normalized, suggestions) \<Rightarrow>
       Inr (toToolEnvelope rt
         (JObj [
            (''entity'', JObj [(''type'', JStr entityType), (''normalized'', normalized)]),
            (''nextTools'', JArr (map JStr suggestions))])
         [src rt ''local-resolver'' ''pattern-match'']
         JUndefined (Some (nowIso rt))
         (if entityType = ''unknown''
          then [''Input did not match known XRPL identifier patterns.''] else [])))"

section \<open>Vocabulary of the properties\<close>

text \<open>
  The definitions of this section are not code of the program; the properties below are
  stated with them.

  \<open>nestedObjects v\<close> lists \<open>v\<close> and the objects and arrays nested in it at any depth, in the
  order of a depth-first walk, and \<open>firstPick\<close> is the first number that the aliases give on
  one of the listed values.
\<close>

fun nestedObjects :: "jsval \<Rightarrow> jsval list"
  and nestedInList :: "jsval list \<Rightarrow> jsval list"
  and nestedInProps :: "(string \<times> jsval) list \<Rightarrow> jsval list"
where
  "nestedObjects (JObj kvs) = JObj kvs # nestedInProps kvs"
| "nestedObjects (JArr xs) = JArr xs # nestedInList xs"
| "nestedObjects JUndefined = []"
| "nestedObjects JNull = []"
| "nestedObjects (JBool b) = []"
| "nestedObjects (JNum n) = []"
| "nestedObjects (JStr s) = []"
| "nestedInList [] = []"
| "nestedInList (x # xs) = nestedObjects x @ nestedInList xs"
| "nestedInProps [] = []"
| "nestedInProps ((k, x) # rest) = nestedObjects x @ nestedInProps rest"

definition firstPick :: "coercion \<Rightarrow> string list \<Rightarrow> jsval list \<Rightarrow> jsnum option" where
  "firstPick co keys ws =
     (case List.map_filter (\<lambda>w. pickKeys co w keys) ws of [] \<Rightarrow> None | n # ns \<Rightarrow> Some n)"

text \<open>A trade record with a numeric price and a numeric amount.\<close>

definition trade :: "real \<times> real \<Rightarrow> jsval" where
  "trade pa = JObj [(''price'', JNum (Fin (fst pa))), (''amount'', JNum (Fin (snd pa)))]"

text \<open>The two shapes of a handler's result.\<close>

fun isEnvelope :: "toolresult \<Rightarrow> bool" where
  "isEnvelope (ToolResult e) = True"
| "isEnvelope (ToolError m) = False"

fun isError :: "toolresult \<Rightarrow> bool" where
  "isError (ToolResult e) = False"
| "isError (ToolError m) = True"

section \<open>Sample upstream behaviours\<close>

text \<open>
  Concrete runtimes on which the properties are exercised. In all of them no string, array
  or object converts to a number, the rendering of a request body keeps the JSON-RPC method
  name only (enough to tell the requests of one handler apart), and the clock stands still.
  \<^item> \<open>reachable names\<close> answers an empty JSON object to the POST of a method and to the GET
    of a path that is listed, and fails every other request;
  \<^item> \<open>ledgerZeroNet\<close> is a ledger node whose \<^verbatim>\<open>server_info\<close> reports the validated ledger
    index 0, beside an indexing service whose watermark path reports 5 as its latest indexed
    ledger;
  \<^item> \<open>accountNet\<close> is a ledger node that knows an account with 1001 owned objects, flags
    set, no trustline and two transactions, and \<open>marketNet\<close> one with an empty order book
    and no pool, beside an indexing service that reports two trades.
\<close>

definition noCoercion :: coercion where
  "noCoercion v = NaN"

definition okJson :: "string \<Rightarrow> response" where
  "okJson body =
     \<lparr>status = 200, statusText = ''OK'', contentTypeHeader = Some ''application/json'',
      responseText = body\<rparr>"

definition methodName :: "jsval \<Rightarrow> string" where
  "methodName v = (case optField v ''method'' of JStr m \<Rightarrow> m | _ \<Rightarrow> [])"

definition sampleRuntime ::
  "(request \<Rightarrow> exn + response) \<Rightarrow> (string \<Rightarrow> jsval option) \<Rightarrow> runtime" where
  "sampleRuntime net parse =
     \<lparr>LOS_BASE_URL = ''https://los.prod.ripplex.io'', DATA_XRPL_BASE_URL = ''https://data.xrpl.org'',
      XRPL_RPC_URL = ''https://s1.ripple.com:51234'', fetch = net, JSON_parse = parse,
      JSON_stringify = methodName, toStr = (\<lambda>v. []), coerce = noCoercion,
      nowIso = ''2026-02-20T00:00:00.000Z''\<rparr>"

definition reachable :: "string list \<Rightarrow> request \<Rightarrow> exn + response" where
  "reachable names req =
     (case req of
        Post url body \<Rightarrow> if body \<in> set names then Inr (okJson ''{}'') else Inl ''fetch failed''
      | Get base path query \<Rightarrow>
          if path \<in> set names then Inr (okJson ''{}'') else Inl ''fetch failed'')"

definition emptyObjects :: "string \<Rightarrow> jsval option" where
  "emptyObjects = [''{}'' \<mapsto> JObj []]"

definition accountNet :: "request \<Rightarrow> exn + response" where
  "accountNet req =
     (case req of
        Post url body \<Rightarrow>
          if body \<in> set [''account_info'', ''account_lines'', ''account_tx'']
          then Inr (okJson body) else Inl ''fetch failed''
      | Get base path query \<Rightarrow> Inl ''fetch failed'')"

definition accountParse :: "string \<Rightarrow> jsval option" where
  "accountParse =
     [''account_info'' \<mapsto>
        JObj [(''result'', JObj [(''account_data'',
           JObj [(''OwnerCount'', JNum (Fin 1001)), (''Flags'', JNum (Fin 131072))])])],
      ''account_lines'' \<mapsto> JObj [(''result'', JObj [(''lines'', JArr [])])],
      ''account_tx'' \<mapsto>
        JObj [(''result'', JObj [(''transactions'', JArr [
           JObj [(''tx_json'',
              JObj [(''Account'', JStr ''rAlice''), (''Destination'', JStr ''rBob'')])],
           JObj [(''tx_json'',
              JObj [(''Account'', JStr ''rBob''), (''Destination'', JStr ''rAlice'')])]])])]]"



text \<open>Stand-ins for the payload parts that are parameters: they never throw.\<close>

definition plainDerived :: derived where
  "plainDerived =
     \<lparr>explainTx = (\<lambda>tx_hash losTx txResult. Inr txResult),
      topTokensByAbsBalance = (\<lambda>accountLines. Inr (JArr [])),
      txTypeHistogram = (\<lambda>rows. JObj []),
      byOperator = (\<lambda>validators. Inr (JObj [])),
      txTypes = (\<lambda>rows. Inr (JObj []))\<rparr>"

definition ledgerZeroNet :: "request \<Rightarrow> exn + response" where
  "ledgerZeroNet req =
     (case req of
        Post url body \<Rightarrow> Inr (okJson ''server_info'')
      | Get base path query \<Rightarrow>
          if path = ''/ingestion-watermark'' then Inr (okJson ''watermark'')
          else Inl ''fetch failed'')"

definition ledgerZeroParse :: "string \<Rightarrow> jsval option" where
  "ledgerZeroParse =
     [''server_info'' \<mapsto>
        JObj [(''result'',
           JObj [(''info'', JObj [(''validated_ledger'', JObj [(''seq'', JNum (Fin 0))])])])],
      ''watermark'' \<mapsto> JObj [(''latestIndexedLedger'', JNum (Fin 5))]]"


section \<open>Hexadecimal text and character classes\<close>

lemma hexDigits_roundtrip:
  "list_all (\<lambda>n. hexValue (upperChar (hexDigit n)) = Some n) [0..<16]"
  by (simp add: upt_rec hexValue_def upperChar_def hexDigit_def lowerLetters_def upperLetters_def)

lemma hexValue_upper_hexDigit: "n < 16 \<Longrightarrow> hexValue (upperChar (hexDigit n)) = Some n"
  using hexDigits_roundtrip by (simp add: list_all_iff)

lemma hexDecode_toHex: "hexDecode (toUpperCase (toHex bs)) = Some bs"
proof (induction bs)
  case Nil
  then show ?case by (simp add: toHex_def toUpperCase_def)
next
  case (Cons b bs)
  have "unat b < 256" using unsigned_less [of b, where ?'a = nat] by simp
  then have d: "unat b div 16 < 16" by arith
  have m: "unat b mod 16 < 16" by simp
  have "word_of_nat (16 * (unat b div 16) + unat b mod 16) = b"
    by (simp add: mult_div_mod_eq)
  with Cons d m show ?case
    by (simp add: toHex_def toUpperCase_def hexByte_def hexValue_upper_hexDigit)
qed

lemma length_toHex: "length (toHex bs) = 2 * length bs"
  by (induction bs) (simp_all add: toHex_def hexByte_def)

lemma toHex_append: "toHex (xs @ ys) = toHex xs @ toHex ys"
  by (simp add: toHex_def)

lemma toUpperCase_append: "toUpperCase (a @ b) = toUpperCase a @ toUpperCase b"
  by (simp add: toUpperCase_def)

lemma toHex_zeros: "toUpperCase (toHex (replicate n 0)) = replicate (2 * n) CHR ''0''"
  by (induction n)
     (simp_all add: toHex_def toUpperCase_def hexByte_def hexDigit_def upperChar_def
        lowerLetters_def upperLetters_def)

lemma alnum_not_space: "isAlnum c \<Longrightarrow> \<not> isWhiteSpace c"
  by (auto simp: isAlnum_def isWhiteSpace_def lowerLetters_def upperLetters_def decimalDigits_def)

lemma trim_id:
  assumes "s \<noteq> []" "\<not> isWhiteSpace (hd s)" "\<not> isWhiteSpace (last s)"
  shows "trim s = s"
proof -
  have 1: "dropWhile isWhiteSpace s = s"
    using assms by (simp add: dropWhile_eq_self_iff)
  have 2: "dropWhile isWhiteSpace (rev s) = rev s"
    using assms by (simp add: dropWhile_eq_self_iff hd_rev)
  show ?thesis by (simp add: trim_def 1 2)
qed

lemma trim_alnum:
  assumes "s \<noteq> []" "list_all isAlnum s"
  shows "trim s = s"
proof -
  from assms have "isAlnum (hd s)" "isAlnum (last s)"
    by (simp_all add: list_all_iff)
  then show ?thesis using assms(1) by (simp add: trim_id alnum_not_space)
qed

lemma upperChar_alnum: "isAlnum c \<Longrightarrow> isAlnum (upperChar c)"
  by (auto simp: isAlnum_def upperChar_def lowerLetters_def upperLetters_def decimalDigits_def)

lemma upperChar_idem: "upperChar (upperChar c) = upperChar c"
  by (auto simp: upperChar_def lowerLetters_def upperLetters_def split: option.splits if_splits)

lemma toUpperCase_alnum: "list_all isAlnum s \<Longrightarrow> list_all isAlnum (toUpperCase s)"
  by (induction s) (simp_all add: toUpperCase_def upperChar_alnum)

lemma toUpperCase_idem: "toUpperCase (toUpperCase s) = toUpperCase s"
  by (simp add: toUpperCase_def upperChar_idem)

lemma currencyTo160Hex_iso:
  assumes "length c = 3" "list_all isAlnum c"
  shows "currencyTo160Hex c
         = Some (toUpperCase (toHex (asciiBytes (toUpperCase c))) @ replicate 34 CHR ''0'')"
proof -
  from assms have "c \<noteq> []" by auto
  with assms have "trim c = c" by (simp add: trim_alnum)
  with assms show ?thesis by (simp add: currencyTo160Hex_def)
qed

text \<open>Evaluations of the normalizer that the examples below share.\<close>

lemma zeros34: "replicate 34 CHR ''0'' = ''0000000000000000000000000000000000''"
  by (simp add: eval_nat_numeral)

lemma upper_usd: "toUpperCase ''usd'' = ''USD''"
  by (simp add: toUpperCase_def upperChar_def upperLetters_def lowerLetters_def)

lemma hex_USD: "toUpperCase (toHex (asciiBytes ''USD'')) = ''555344''"
  by (simp add: toUpperCase_def upperChar_def upperLetters_def lowerLetters_def toHex_def
      asciiBytes_def hexByte_def hexDigit_def)

lemma alnum_usd: "list_all isAlnum ''usd''"
  by (simp add: isAlnum_def upperLetters_def lowerLetters_def decimalDigits_def)

lemma currency_usd: "currencyTo160Hex ''usd'' = Some ''5553440000000000000000000000000000000000''"
proof -
  have l: "length ''usd'' = 3" by simp
  from currencyTo160Hex_iso [OF l alnum_usd] show ?thesis
    by (simp add: upper_usd hex_USD zeros34)
qed

lemma trim_usd: "trim ''usd'' = ''usd''" "trim '' usd'' = ''usd''"
  by (simp_all add: trim_def isWhiteSpace_def)

section \<open>Identifier normalizer: upper-casing and round trip\<close>

text \<open>
  C9. For every currency string of exactly three alphanumeric characters,
  \<^verbatim>\<open>currencyTo160Hex\<close> upper-cases the code before it encodes it: the result is the upper-case
  hexadecimal text of the ASCII bytes of the upper-cased code followed by 34 zero digits, 40
  digits in all. Hence the normalizer, and the token key built from it, give the same result
  for a three-letter code and for its upper-cased form.
\<close>

theorem currencyTo160Hex_case_insensitive:
  "length c = 3 \<Longrightarrow> list_all isAlnum c \<Longrightarrow>
     currencyTo160Hex c
       = Some (toUpperCase (toHex (asciiBytes (toUpperCase c))) @ replicate 34 CHR ''0'')
     \<and> length (toUpperCase (toHex (asciiBytes (toUpperCase c))) @ replicate 34 CHR ''0'') = 40
     \<and> currencyTo160Hex (toUpperCase c) = currencyTo160Hex c
     \<and> tokenIdFromIssuerCurrency issuer (toUpperCase c) = tokenIdFromIssuerCurrency issuer c"
proof -
  assume a: "length c = 3" "list_all isAlnum c"
  have u: "length (toUpperCase c) = 3" "list_all isAlnum (toUpperCase c)"
    using a by (simp_all add: toUpperCase_alnum) (simp add: toUpperCase_def)
  have 1: "currencyTo160Hex (toUpperCase c) = currencyTo160Hex c"
    using currencyTo160Hex_iso [OF a] currencyTo160Hex_iso [OF u] by (simp add: toUpperCase_idem)
  have 2: "length (toUpperCase (toHex (asciiBytes (toUpperCase c))) @ replicate 34 CHR ''0'') = 40"
    using a by (simp add: toUpperCase_def length_toHex asciiBytes_def)
  show ?thesis using currencyTo160Hex_iso [OF a] 1 2
    by (simp add: tokenIdFromIssuerCurrency_def)
qed

theorem currencyTo160Hex_case_insensitive_witness:
  "length ''usd'' = 3 \<and> list_all isAlnum ''usd''
   \<and> currencyTo160Hex ''usd'' = Some ''5553440000000000000000000000000000000000''
   \<and> currencyTo160Hex ''USD'' = currencyTo160Hex ''usd''"
proof -
  have l: "length ''usd'' = 3" by simp
  show ?thesis
    using currencyTo160Hex_case_insensitive
      [OF l alnum_usd, of "''rHb9CJAWyB4rj91VRWn96DkukG4bwdtyTh''"] alnum_usd
    by (simp add: upper_usd hex_USD zeros34)
qed

text \<open>
  C5, as stated, fails: the key of the issuer \<^verbatim>\<open>rHb9CJAWyB4rj91VRWn96DkukG4bwdtyTh\<close> and the
  three-letter code \<^verbatim>\<open>usd\<close> has the currency segment \<^verbatim>\<open>555344\<close> and 34 zeros, which decodes
  to the bytes of \<^verbatim>\<open>USD\<close> and not to the bytes 75, 73, 64 of the original three characters.
\<close>

theorem tokenKey_roundtrip_counterexample:
  "tokenIdFromIssuerCurrency ''rHb9CJAWyB4rj91VRWn96DkukG4bwdtyTh'' ''usd''
     = Some ''5553440000000000000000000000000000000000.rHb9CJAWyB4rj91VRWn96DkukG4bwdtyTh''
   \<and> hexDecode ''5553440000000000000000000000000000000000''
       = Some ([0x55, 0x53, 0x44] @ replicate 17 0)
   \<and> utf8 ''usd'' = [0x75, 0x73, 0x64]"
proof -
  have 1: "tokenIdFromIssuerCurrency ''rHb9CJAWyB4rj91VRWn96DkukG4bwdtyTh'' ''usd''
     = Some ''5553440000000000000000000000000000000000.rHb9CJAWyB4rj91VRWn96DkukG4bwdtyTh''"
    by (simp add: tokenIdFromIssuerCurrency_def currency_usd)
  have "toUpperCase (toHex ([0x55, 0x53, 0x44] @ replicate 17 0))
        = ''5553440000000000000000000000000000000000''"
    unfolding toHex_append toUpperCase_append toHex_zeros
    by (simp add: toUpperCase_def upperChar_def upperLetters_def lowerLetters_def toHex_def
        hexByte_def hexDigit_def zeros34)
  then have 2: "hexDecode ''5553440000000000000000000000000000000000''
       = Some ([0x55, 0x53, 0x44] @ replicate 17 0)"
    using hexDecode_toHex [of "[0x55, 0x53, 0x44] @ replicate 17 0"] by simp
  have 3: "utf8 ''usd'' = [0x75, 0x73, 0x64]"
    by (simp add: utf8_def utf8char_def)
  from 1 2 3 show ?thesis by simp
qed

text \<open>
  C5, amended. The token key is a function of issuer and currency. When a key is produced it
  is a 40-character currency segment, a period and the issuer, and with the currency trimmed
  of white space:
  \<^item> if the trimmed currency is 40 hexadecimal digits, the segment is these digits upper-cased
    (it is not an encoding of their bytes);
  \<^item> else if it is three alphanumeric characters, hex-decoding the segment gives the bytes of
    the upper-cased code followed by 17 zero bytes;
  \<^item> otherwise its UTF-8 encoding has at most 20 bytes and hex-decoding the segment gives
    these bytes padded with zero bytes to 20.
\<close>

theorem tokenKey_roundtrip:
  "tokenIdFromIssuerCurrency issuer currency = Some key \<Longrightarrow>
     key = take 40 key @ ''.'' @ issuer \<and> length (take 40 key) = 40 \<and>
     (if length (trim currency) = 40 \<and> list_all isHexChar (trim currency)
      then take 40 key = toUpperCase (trim currency)
      else if length (trim currency) = 3 \<and> list_all isAlnum (trim currency)
      then hexDecode (take 40 key) = Some (asciiBytes (toUpperCase (trim currency)) @ replicate 17 0)
      else length (utf8 (trim currency)) \<le> 20 \<and> hexDecode (take 40 key)
             = Some (utf8 (trim currency) @ replicate (20 - length (utf8 (trim currency))) 0))"
proof -
  assume k: "tokenIdFromIssuerCurrency issuer currency = Some key"
  define raw where "raw = trim currency"
  from k obtain hex where h: "currencyTo160Hex currency = Some hex"
    and key: "key = hex @ ''.'' @ issuer"
    by (auto simp: tokenIdFromIssuerCurrency_def split: option.splits if_splits)
  consider (hex) "length raw = 40 \<and> list_all isHexChar raw"
    | (iso) "\<not> (length raw = 40 \<and> list_all isHexChar raw)" "length raw = 3 \<and> list_all isAlnum raw"
    | (other) "\<not> (length raw = 40 \<and> list_all isHexChar raw)"
        "\<not> (length raw = 3 \<and> list_all isAlnum raw)"
    by blast
  then have main: "length hex = 40 \<and>
     (if length raw = 40 \<and> list_all isHexChar raw
      then hex = toUpperCase raw
      else if length raw = 3 \<and> list_all isAlnum raw
      then hexDecode hex = Some (asciiBytes (toUpperCase raw) @ replicate 17 0)
      else length (utf8 raw) \<le> 20
           \<and> hexDecode hex = Some (utf8 raw @ replicate (20 - length (utf8 raw)) 0))"
  proof cases
    case hex
    with h show ?thesis by (auto simp: currencyTo160Hex_def raw_def toUpperCase_def)
  next
    case iso
    with h have e: "hex = toUpperCase (toHex (asciiBytes (toUpperCase raw))) @ replicate 34 CHR ''0''"
      by (auto simp: currencyTo160Hex_def raw_def Let_def)
    have z: "replicate 34 CHR ''0'' = toUpperCase (toHex (replicate 17 0))"
      by (simp add: toHex_zeros)
    have "hex = toUpperCase (toHex (asciiBytes (toUpperCase raw) @ replicate 17 0))"
      unfolding e z by (simp only: toHex_append toUpperCase_append)
    then have "hexDecode hex = Some (asciiBytes (toUpperCase raw) @ replicate 17 0)"
      by (simp only: hexDecode_toHex)
    moreover have "length hex = 40"
      using iso unfolding e by (simp add: toUpperCase_def length_toHex asciiBytes_def)
    ultimately show ?thesis using iso by simp
  next
    case other
    with h have l: "length (utf8 raw) \<le> 20"
      and e: "hex = toUpperCase (toHex (utf8 raw @ replicate (20 - length (utf8 raw)) 0))"
      by (auto simp: currencyTo160Hex_def raw_def Let_def split: if_splits)
    have "hexDecode hex = Some (utf8 raw @ replicate (20 - length (utf8 raw)) 0)"
      unfolding e by (simp only: hexDecode_toHex)
    moreover have "length hex = 40"
      using l unfolding e by (simp add: toUpperCase_def length_toHex)
    ultimately show ?thesis using other l by auto
  qed
  have t: "take 40 key = hex" using main key by simp
  show ?thesis unfolding t using main [unfolded raw_def] key by simp
qed

theorem tokenKey_roundtrip_witness:
  "tokenIdFromIssuerCurrency ''rHb9CJAWyB4rj91VRWn96DkukG4bwdtyTh'' '' usd''
     = Some ''5553440000000000000000000000000000000000.rHb9CJAWyB4rj91VRWn96DkukG4bwdtyTh''
   \<and> hexDecode ''5553440000000000000000000000000000000000''
       = Some (asciiBytes ''USD'' @ replicate 17 0)"
proof -
  note t = trim_usd(2)
  have c: "currencyTo160Hex '' usd'' = currencyTo160Hex ''usd''"
    by (simp add: currencyTo160Hex_def trim_usd)
  have h: "tokenIdFromIssuerCurrency ''rHb9CJAWyB4rj91VRWn96DkukG4bwdtyTh'' '' usd''
     = Some ''5553440000000000000000000000000000000000.rHb9CJAWyB4rj91VRWn96DkukG4bwdtyTh''"
    by (simp add: tokenIdFromIssuerCurrency_def c currency_usd)
  show ?thesis
    using tokenKey_roundtrip [OF h] h alnum_usd by (simp add: t upper_usd)
qed

section \<open>Freshness probe: depth of the search\<close>

lemma firstPick_Nil: "firstPick co keys [] = None"
  by (simp add: firstPick_def map_filter_simps)

lemma firstPick_Cons:
  "firstPick co keys (w # ws)
   = (case pickKeys co w keys of Some n \<Rightarrow> Some n | None \<Rightarrow> firstPick co keys ws)"
  by (simp add: firstPick_def map_filter_simps split: option.splits)

lemma firstPick_append:
  "firstPick co keys (xs @ ys)
   = (case firstPick co keys xs of Some n \<Rightarrow> Some n | None \<Rightarrow> firstPick co keys ys)"
  by (induction xs) (simp_all add: firstPick_Nil firstPick_Cons split: option.splits)

lemma nested_nonobject: "\<not> isObjectType v \<Longrightarrow> nestedObjects v = []"
  by (cases v) simp_all

lemma pick_all:
  "pickFirstNumber co v keys = firstPick co keys (nestedObjects v)"
  "pickNested co xs keys = firstPick co keys (nestedInList xs)"
  "pickNestedProps co kvs keys = firstPick co keys (nestedInProps kvs)"
proof (induction co v keys and co xs keys and co kvs keys
       rule: pickFirstNumber_pickNested_pickNestedProps.induct)
  case (1 co kvs keys)
  then show ?case by (simp add: firstPick_Cons split: option.splits)
next
  case (2 co xs keys)
  then show ?case by (simp add: firstPick_Cons split: option.splits)
next
  case (9 co nested rest keys)
  then show ?case
    by (cases "isObjectType nested")
       (auto simp: firstPick_append firstPick_Nil nested_nonobject split: option.splits
          elim: isObjectType.elims)
next
  case (11 co k nested rest keys)
  then show ?case
    by (cases "isObjectType nested")
       (auto simp: firstPick_append firstPick_Nil nested_nonobject split: option.splits
          elim: isObjectType.elims)
qed (simp_all add: firstPick_Nil)

text \<open>
  C3, as stated, fails: in the payload \<^verbatim>\<open>{"status": {"sync": {"ledger": 7}}}\<close> the only
  field with an alias name lies two levels below the top, neither the payload nor the object
  one level below has a matching field, and the search returns 7.
\<close>

theorem pickFirstNumber_depth_counterexample:
  "pickFirstNumber noCoercion
     (JObj [(''status'', JObj [(''sync'', JObj [(''ledger'', JNum (Fin 7))])])]) ledgerAliases
     = Some (Fin 7)
   \<and> pickKeys noCoercion
       (JObj [(''status'', JObj [(''sync'', JObj [(''ledger'', JNum (Fin 7))])])]) ledgerAliases
     = None
   \<and> pickKeys noCoercion (JObj [(''sync'', JObj [(''ledger'', JNum (Fin 7))])]) ledgerAliases
     = None"
  by (simp add: ledgerAliases_def toNum_def)

text \<open>
  C3, amended. The search of a payload for a latest-indexed-ledger field is not bounded in
  depth: \<^verbatim>\<open>pickFirstNumber\<close> walks the payload and every object and array nested in it, at
  any depth, depth first in enumeration order, and returns the first number that the alias
  list gives on one of them (for each value, the first alias in list order whose field is
  present and converts to a finite number); it returns nothing exactly when none of them has
  such a field.
\<close>

theorem pickFirstNumber_any_depth:
  "pickFirstNumber co v keys = firstPick co keys (nestedObjects v)"
  by (rule pick_all(1))

theorem pickFirstNumber_any_depth_witness:
  "firstPick noCoercion ledgerAliases
     (nestedObjects (JObj [(''status'', JObj [(''sync'', JObj [(''ledger'', JNum (Fin 7))])])]))
   = Some (Fin 7)"
  using pickFirstNumber_any_depth
    [of noCoercion "JObj [(''status'', JObj [(''sync'', JObj [(''ledger'', JNum (Fin 7))])])]"
        ledgerAliases, symmetric]
  by (simp add: ledgerAliases_def toNum_def)

section \<open>Upstream adapter: when the body is parsed\<close>

text \<open>
  C4, as stated, fails. A body \<^verbatim>\<open>5\<close> declared as \<^verbatim>\<open>text/json\<close> has a content type that
  contains \<^verbatim>\<open>json\<close>, yet no parse is attempted and the text is returned although the parser
  would read the number 5; and an empty body declared as \<^verbatim>\<open>application/json\<close>, which no
  JSON parser accepts, gives \<^verbatim>\<open>null\<close> and not the raw (empty) text.
\<close>

theorem fetchWithParse_json_counterexample:
  "includesStr ''text/json'' ''json''
   \<and> parseBody [''5'' \<mapsto> JNum (Fin 5)] ''text/json'' ''5'' = JStr ''5''
   \<and> includesStr ''application/json'' ''json''
   \<and> parseBody Map.empty ''application/json'' [] = JNull"
  by (simp add: parseBody_def startsWith_def)

text \<open>
  C4, amended. For a response with a status from 200 to 299, \<^verbatim>\<open>fetchWithParse\<close> returns
  the body value computed from the content type (empty when the header is absent) and the
  body text as follows. A JSON parse is attempted exactly when the body text is not empty and
  either the content type contains \<^verbatim>\<open>application/json\<close> or the text starts with \<^verbatim>\<open>{\<close> or
  \<^verbatim>\<open>[\<close>; then the parsed value is returned, or the raw text when the parse fails. In every
  other case the parser is not consulted: an empty body whose content type contains
  \<^verbatim>\<open>application/json\<close> gives \<^verbatim>\<open>null\<close>, and everything else gives the raw text unchanged.
\<close>

theorem fetchWithParse_body:
  "(fetch rt req = Inr r \<and> 200 \<le> status r \<and> status r \<le> 299 \<longrightarrow>
      fetchWithParse rt req
        = Inr (parseBody (JSON_parse rt)
                 (case contentTypeHeader r of None \<Rightarrow> [] | Some c \<Rightarrow> c) (responseText r)))
   \<and> ((includesStr ct ''application/json'' \<or> startsWith body ''{'' \<or> startsWith body ''['')
        \<and> body \<noteq> [] \<longrightarrow>
      parseBody p ct body = (case p body of Some v \<Rightarrow> v | None \<Rightarrow> JStr body))
   \<and> (\<not> ((includesStr ct ''application/json'' \<or> startsWith body ''{'' \<or> startsWith body ''['')
           \<and> body \<noteq> []) \<longrightarrow>
      parseBody p ct body = parseBody p' ct body)
   \<and> (includesStr ct ''application/json'' \<and> body = [] \<longrightarrow> parseBody p ct body = JNull)
   \<and> (\<not> (includesStr ct ''application/json'' \<or> startsWith body ''{'' \<or> startsWith body ''['')
      \<longrightarrow> parseBody p ct body = JStr body)"
  by (simp add: parseBody_def fetchWithParse_def Let_def)

theorem fetchWithParse_body_witness:
  "fetchWithParse (sampleRuntime (reachable [''/status'']) emptyObjects)
      (Get ''https://los.prod.ripplex.io'' ''/status'' JUndefined) = Inr (JObj [])
   \<and> parseBody emptyObjects ''text/plain'' ''{}'' = JObj []
   \<and> parseBody emptyObjects ''text/plain'' ''{not json'' = JStr ''{not json''
   \<and> parseBody emptyObjects ''text/json'' ''5'' = parseBody [''5'' \<mapsto> JNum (Fin 5)] ''text/json'' ''5''
   \<and> parseBody emptyObjects ''application/json'' [] = JNull
   \<and> parseBody emptyObjects ''text/plain'' ''ok'' = JStr ''ok''"
proof -
  let ?rt = "sampleRuntime (reachable [''/status'']) emptyObjects"
  let ?req = "Get ''https://los.prod.ripplex.io'' ''/status'' JUndefined"
  have f: "fetch ?rt ?req = Inr (okJson ''{}'') \<and> 200 \<le> status (okJson ''{}'')
           \<and> status (okJson ''{}'') \<le> 299"
    by (simp add: sampleRuntime_def reachable_def okJson_def)
  have 1: "fetchWithParse ?rt ?req = Inr (JObj [])"
    using fetchWithParse_body [of ?rt ?req "okJson ''{}''" "[]" "[]" emptyObjects emptyObjects] f
    by (simp add: sampleRuntime_def okJson_def parseBody_def emptyObjects_def startsWith_def)
  have 2: "parseBody emptyObjects ''text/plain'' ''{}'' = JObj []"
    using fetchWithParse_body [of ?rt ?req "okJson ''{}''" "''text/plain''" "''{}''" emptyObjects emptyObjects]
    by (simp add: startsWith_def emptyObjects_def)
  have 3: "parseBody emptyObjects ''text/plain'' ''{not json'' = JStr ''{not json''"
    using fetchWithParse_body [of ?rt ?req "okJson ''{}''" "''text/plain''" "''{not json''" emptyObjects emptyObjects]
    by (simp add: startsWith_def emptyObjects_def)
  have 4: "parseBody emptyObjects ''text/json'' ''5''
           = parseBody [''5'' \<mapsto> JNum (Fin 5)] ''text/json'' ''5''"
    using fetchWithParse_body [of ?rt ?req "okJson ''{}''" "''text/json''" "''5''" emptyObjects
        "[''5'' \<mapsto> JNum (Fin 5)]"]
    by (simp add: startsWith_def)
  have 5: "parseBody emptyObjects ''application/json'' [] = JNull"
    using fetchWithParse_body [of ?rt ?req "okJson ''{}''" "''application/json''" "[]" emptyObjects emptyObjects]
    by (simp add: startsWith_def)
  have 6: "parseBody emptyObjects ''text/plain'' ''ok'' = JStr ''ok''"
    using fetchWithParse_body [of ?rt ?req "okJson ''{}''" "''text/plain''" "''ok''" emptyObjects emptyObjects]
    by (simp add: startsWith_def)
  from 1 2 3 4 5 6 show ?thesis by simp
qed

section \<open>What a handler that returns an envelope has computed\<close>


lemma length_elements: "(if isArray v then length (elements v) else 0) = length (elements v)"
  by (cases v) simp_all

lemma catching_result: "catching body = ToolResult e \<longleftrightarrow> body = Inr (ToolResult e)"
  by (cases body) (simp_all add: catching_def toolError_def)

lemma bindE_Inr: "bindE m f = Inr r \<longleftrightarrow> (\<exists>x. m = Inr x \<and> f x = Inr r)"
  by (cases m) (simp_all add: bindE_def)

lemma account_overview_fields:
  assumes "account_overview rt dv account options = ToolResult e"
  shows "\<exists>ad trustlines rows cps.
       recentCounterparties account rows = Inr cps
       \<and> optField (optField (data e) ''recentActivity'') ''recentCounterparties'' = JArr cps
       \<and> optField (data e) ''riskIndicators''
           = JArr (map JStr (riskIndicators (coerce rt) (length (elements trustlines)) ad))
       \<and> optField (optField (data e) ''trustlines'') ''count'' = natNum (length (elements trustlines))
       \<and> optField (data e) ''ownerCount'' = JNum (numOr0 (coerce rt) (optField ad ''OwnerCount''))
       \<and> optField (data e) ''flags'' = nullish (optField ad ''Flags'') (JNum (Fin 0))"
  using assms
  apply (clarsimp simp: account_overview_def catching_result bindE_Inr Let_def
        toToolEnvelope_def mkEnvelope_def length_elements)
  apply (intro exI conjI)
       apply assumption
      apply (rule refl)+
  done


text \<open>The sample runtimes on which the two handlers return an envelope.\<close>

lemma accountNet_calls:
  "xrplRpc (sampleRuntime accountNet accountParse) ''account_info'' params
     = Inr (JObj [(''result'', JObj [(''account_data'',
         JObj [(''OwnerCount'', JNum (Fin 1001)), (''Flags'', JNum (Fin 131072))])])])"
  "xrplRpc (sampleRuntime accountNet accountParse) ''account_lines'' params
     = Inr (JObj [(''result'', JObj [(''lines'', JArr [])])])"
  "xrplRpc (sampleRuntime accountNet accountParse) ''account_tx'' params
     = Inr (JObj [(''result'', JObj [(''transactions'', JArr [
           JObj [(''tx_json'',
              JObj [(''Account'', JStr ''rAlice''), (''Destination'', JStr ''rBob'')])],
           JObj [(''tx_json'',
              JObj [(''Account'', JStr ''rBob''), (''Destination'', JStr ''rAlice'')])]])])])"
  by (simp_all add: xrplRpc_def methodName_def fetchWithParse_def sampleRuntime_def accountNet_def
      okJson_def parseBody_def accountParse_def startsWith_def)

lemma sample_rows:
  "recentCounterparties ''rAlice''
     [JObj [(''tx_json'', JObj [(''Account'', JStr ''rAlice''), (''Destination'', JStr ''rBob'')])],
      JObj [(''tx_json'', JObj [(''Account'', JStr ''rBob''), (''Destination'', JStr ''rAlice'')])]]
     = Inr [JObj [(''address'', JStr ''rBob''), (''interactions'', natNum 1)]]"
  by (simp add: recentCounterparties_def countCounterparty_def bindE_def orElse_def)

lemma accountNet_envelope:
  "isEnvelope (account_overview (sampleRuntime accountNet accountParse) plainDerived ''rAlice''
     JUndefined)"
  by (simp add: account_overview_def catching_def bindE_def accountNet_calls sample_rows
      xrplResultEnvelope_def nullish_def plainDerived_def toToolEnvelope_def Let_def)


section \<open>Market snapshot: the volume-weighted average price\<close>










section \<open>Account overview: risk indicators and counterparties\<close>



lemma bumpCount_keys_sub: "fst ` set (bumpCount cp m) \<subseteq> insert cp (fst ` set m)"
proof (induction cp m rule: bumpCount.induct)
  case (1 cp)
  show ?case by simp
next
  case (2 cp k n rest)
  then show ?case by (cases "sameKey cp k") auto
qed

lemma countCounterparty_keys:
  assumes "countCounterparty account m row = Inr m'" "JStr account \<notin> fst ` set m"
  shows "JStr account \<notin> fst ` set m'"
proof -
  from assms(1) consider "m' = m" | cp where "m' = bumpCount cp m" "cp \<noteq> JStr account"
    by (auto simp: countCounterparty_def bindE_def Let_def split: sum.splits if_splits)
  then show ?thesis
  proof cases
    case 1
    with assms(2) show ?thesis by simp
  next
    case 2
    with assms(2) bumpCount_keys_sub [of cp m] show ?thesis by auto
  qed
qed

lemma reduce_keys:
  "reduceE (countCounterparty account) m rows = Inr m' \<Longrightarrow> JStr account \<notin> fst ` set m
     \<Longrightarrow> JStr account \<notin> fst ` set m'"
proof (induction rows arbitrary: m)
  case Nil
  then show ?case by simp
next
  case (Cons row rows)
  from Cons.prems(1) obtain m1 where s: "countCounterparty account m row = Inr m1"
    and r: "reduceE (countCounterparty account) m1 rows = Inr m'"
    by (auto split: sum.splits)
  from countCounterparty_keys [OF s Cons.prems(2)] Cons.IH [OF r] show ?case by simp
qed

lemma counterparties_not_account:
  "recentCounterparties account rows = Inr cps \<Longrightarrow>
     list_all (\<lambda>c. optField c ''address'' \<noteq> JStr account) cps"
proof -
  assume a: "recentCounterparties account rows = Inr cps"
  then obtain m where m: "reduceE (countCounterparty account) [] rows = Inr m"
    and cps: "cps = map (\<lambda>(address, count).
                  JObj [(''address'', address), (''interactions'', natNum count)])
              (take 10 (sort_key (\<lambda>(address, count). - int count) m))"
    by (auto simp: recentCounterparties_def bindE_def split: sum.splits)
  from reduce_keys [OF m] have k: "JStr account \<notin> fst ` set m" by simp
  have "set (take 10 (sort_key (\<lambda>(address, count). - int count) m)) \<subseteq> set m"
    using set_take_subset [of 10 "sort_key (\<lambda>(address, count). - int count) m"] by simp
  with k have "\<forall>p \<in> set (take 10 (sort_key (\<lambda>(address, count). - int count) m)).
                 fst p \<noteq> JStr account"
    by force
  then show ?thesis unfolding cps by (auto simp: list_all_iff)
qed

text \<open>
  C10. In \<^verbatim>\<open>account_overview\<close> no entry of \<^verbatim>\<open>recentCounterparties\<close> has the queried
  account as its address: whatever the transaction sample, a row whose counterparty (the
  destination, or else the sender) is the input account is not counted, so whenever the list
  is produced, and so whenever the handler returns an envelope, every address in it differs
  from the input account.
\<close>

theorem recentCounterparties_excludes_account:
  "(recentCounterparties account rows = Inr cps \<longrightarrow>
      list_all (\<lambda>c. optField c ''address'' \<noteq> JStr account) cps)
   \<and> (account_overview rt dv account options = ToolResult e \<longrightarrow>
        (\<exists>entries.
           optField (optField (data e) ''recentActivity'') ''recentCounterparties'' = JArr entries
           \<and> list_all (\<lambda>c. optField c ''address'' \<noteq> JStr account) entries))"
proof -
  have "\<exists>entries.
           optField (optField (data e) ''recentActivity'') ''recentCounterparties'' = JArr entries
           \<and> list_all (\<lambda>c. optField c ''address'' \<noteq> JStr account) entries"
    if "account_overview rt dv account options = ToolResult e"
  proof -
    from account_overview_fields [OF that] obtain rs entries where
      "recentCounterparties account rs = Inr entries"
      "optField (optField (data e) ''recentActivity'') ''recentCounterparties'' = JArr entries"
      by blast
    with counterparties_not_account [of account rs entries] show ?thesis by blast
  qed
  with counterparties_not_account [of account rows cps] show ?thesis by blast
qed

theorem recentCounterparties_excludes_account_witness:
  "recentCounterparties ''rAlice''
     [JObj [(''tx_json'', JObj [(''Account'', JStr ''rAlice''), (''Destination'', JStr ''rBob'')])],
      JObj [(''tx_json'', JObj [(''Account'', JStr ''rBob''), (''Destination'', JStr ''rAlice'')])]]
     = Inr [JObj [(''address'', JStr ''rBob''), (''interactions'', natNum 1)]]
   \<and> list_all (\<lambda>c. optField c ''address'' \<noteq> JStr ''rAlice'')
        [JObj [(''address'', JStr ''rBob''), (''interactions'', natNum 1)]]
   \<and> (\<exists>e entries.
         account_overview (sampleRuntime accountNet accountParse) plainDerived ''rAlice'' JUndefined
           = ToolResult e
         \<and> optField (optField (data e) ''recentActivity'') ''recentCounterparties'' = JArr entries
         \<and> list_all (\<lambda>c. optField c ''address'' \<noteq> JStr ''rAlice'') entries)"
proof -
  let ?rt = "sampleRuntime accountNet accountParse"
  let ?rows = "[JObj [(''tx_json'',
                   JObj [(''Account'', JStr ''rAlice''), (''Destination'', JStr ''rBob'')])],
                JObj [(''tx_json'',
                   JObj [(''Account'', JStr ''rBob''), (''Destination'', JStr ''rAlice'')])]]"
  from accountNet_envelope obtain e
    where e: "account_overview ?rt plainDerived ''rAlice'' JUndefined = ToolResult e"
    by (cases "account_overview ?rt plainDerived ''rAlice'' JUndefined") simp_all
  note T = recentCounterparties_excludes_account
    [where account = "''rAlice''" and rows = ?rows
       and cps = "[JObj [(''address'', JStr ''rBob''), (''interactions'', natNum 1)]]"
       and rt = ?rt and dv = plainDerived and options = JUndefined and e = e]
  from T sample_rows
  have 1: "list_all (\<lambda>c. optField c ''address'' \<noteq> JStr ''rAlice'')
        [JObj [(''address'', JStr ''rBob''), (''interactions'', natNum 1)]]"
    by blast
  from T e
  have 2: "\<exists>entries.
         optField (optField (data e) ''recentActivity'') ''recentCounterparties'' = JArr entries
         \<and> list_all (\<lambda>c. optField c ''address'' \<noteq> JStr ''rAlice'') entries"
    by blast
  from sample_rows 1 2 e show ?thesis by blast
qed

section \<open>Entity resolution\<close>











section \<open>Network overview: ledger lag at ledger index zero\<close>

text \<open>
  The lag is absent when an operand is absent, and it is the exact difference of two known
  operands unless the validated ledger index is 0: line 795 tests \<^verbatim>\<open>validatedLedgerIndex\<close>
  for truthiness where it tests the other operand against \<^verbatim>\<open>null\<close>, and 0 is falsy.
\<close>

lemma ledgerLag_cases:
  "ledgerLag None latest = None"
  "ledgerLag validatedLedgerIndex None = None"
  "ledgerLag (Some (Fin a)) (Some (Fin b)) = (if a = 0 then None else Some (Fin (a - b)))"
  by (simp_all add: ledgerLag_def split: option.splits)

text \<open>
  C2 does not hold of the code at the validated ledger index 0. With \<^verbatim>\<open>server_info\<close>
  reporting the validated ledger index 0 and the indexing service reporting 5 as its latest
  indexed ledger, both operands are known integers and appear in the payload, and
  \<^verbatim>\<open>keyRates.ledgerLagVsLos\<close> is \<^verbatim>\<open>null\<close> where the difference is 0 - 5.
\<close>

theorem network_overview_lag_at_ledger_zero:
  "ledgerLag (Some (Fin 0)) (Some (Fin 5)) = None
   \<and> (case network_overview (sampleRuntime ledgerZeroNet ledgerZeroParse) of
        ToolError m \<Rightarrow> False
      | ToolResult e \<Rightarrow>
          optField (data e) ''validatedLedgerIndex'' = JNum (Fin 0)
          \<and> optField (optField (data e) ''dataFreshness'') ''losLatestIndexedLedger'' = JNum (Fin 5)
          \<and> optField (optField (data e) ''keyRates'') ''ledgerLagVsLos'' = JNull)"
proof -
  let ?rt = "sampleRuntime ledgerZeroNet ledgerZeroParse"
  have r: "xrplRpc ?rt ''server_info'' (JArr [JObj []])
      = Inr (JObj [(''result'',
               JObj [(''info'', JObj [(''validated_ledger'', JObj [(''seq'', JNum (Fin 0))])])])])"
    by (simp add: xrplRpc_def methodName_def fetchWithParse_def sampleRuntime_def ledgerZeroNet_def
        okJson_def parseBody_def ledgerZeroParse_def startsWith_def)
  have t: "tryLos ?rt ''/ingestion-watermark'' JUndefined
           = JObj [(''latestIndexedLedger'', JNum (Fin 5))]"
    by (simp add: tryLos_def callLos_def fetchWithParse_def sampleRuntime_def ledgerZeroNet_def
        okJson_def parseBody_def ledgerZeroParse_def startsWith_def)
  have p: "losFreshnessProbe ?rt
           = \<lparr>latestIndexedLedger = Some (Fin 5), sourcePath = Some ''/ingestion-watermark'',
              raw = JObj [(''latestIndexedLedger'', JNum (Fin 5))]\<rparr>"
    by (simp add: losFreshnessProbe_def candidates_def t ledgerAliases_def toNum_def)
  have l: "ledgerLag (Some (Fin 0)) (Some (Fin 5)) = None"
    by (simp add: ledgerLag_def)
  have v: "validatedLedgerIndexOf (coerce ?rt) (JObj [(''seq'', JNum (Fin 0))]) = Some (Fin 0)"
    by (simp add: validatedLedgerIndexOf_def toNum_def orNum_def)
  show ?thesis
    by (simp add: l network_overview_def catching_def bindE_def r p v xrplResultEnvelope_def
        nullish_def toToolEnvelope_def mkEnvelope_def numOrNull_def Let_def)
qed

section \<open>Composite handlers: one envelope or one error\<close>

lemma network_overview_hard:
  "xrplRpc rt ''server_info'' (JArr [JObj []]) = Inl m \<longrightarrow> network_overview rt = ToolError m"
  by (simp add: network_overview_def catching_def bindE_def toolError_def)

lemma ledger_summary_hard:
  "xrplRpc rt ''ledger''
     (JArr [JObj ([(''transactions'', JBool False), (''expand'', JBool False)]
        @ (if ledger_index \<noteq> JUndefined then [(''ledger_index'', ledger_index)] else [])
        @ (if truthy ledger_hash then [(''ledger_hash'', ledger_hash)] else []))]) = Inl m
   \<longrightarrow> ledger_summary rt ledger_index ledger_hash = ToolError m"
  by (simp add: ledger_summary_def catching_def bindE_def toolError_def Let_def)

lemma tx_explain_hard:
  "xrplRpc rt ''tx'' (JArr [JObj [(''transaction'', JStr tx_hash)]]) = Inl m
   \<longrightarrow> tx_explain rt dv tx_hash = ToolError m"
  by (simp add: tx_explain_def catching_def bindE_def toolError_def Let_def)

lemma account_overview_hard1:
  "xrplRpc rt ''account_info''
      (JArr [JObj [(''account'', JStr account), (''ledger_index'', JStr ''validated'')]]) = Inl m
   \<longrightarrow> account_overview rt dv account options = ToolError m"
  by (simp add: account_overview_def catching_def bindE_def toolError_def Let_def)

lemma account_overview_hard2:
  "xrplRpc rt ''account_info''
      (JArr [JObj [(''account'', JStr account), (''ledger_index'', JStr ''validated'')]]) = Inr info
   \<and> xrplRpc rt ''account_lines''
      (JArr [JObj [(''account'', JStr account), (''ledger_index'', JStr ''validated''),
                   (''limit'', numOrNull (orNum (toNum (coerce rt) (optField options ''lines_limit''))
                                            (Some (Fin 400))))]]) = Inl m
   \<longrightarrow> account_overview rt dv account options = ToolError m"
  by (simp add: account_overview_def catching_def bindE_def toolError_def Let_def)

lemma account_overview_hard3:
  "xrplRpc rt ''account_info''
      (JArr [JObj [(''account'', JStr account), (''ledger_index'', JStr ''validated'')]]) = Inr info
   \<and> xrplRpc rt ''account_lines''
      (JArr [JObj [(''account'', JStr account), (''ledger_index'', JStr ''validated''),
                   (''limit'', numOrNull (orNum (toNum (coerce rt) (optField options ''lines_limit''))
                                            (Some (Fin 400))))]]) = Inr trustlines
   \<and> xrplRpc rt ''account_tx''
      (JArr [JObj [(''account'', JStr account), (''ledger_index_min'', JNum (Fin (- 1))),
                   (''ledger_index_max'', JNum (Fin (- 1))),
                   (''limit'', numOrNull (orNum (toNum (coerce rt) (optField options ''tx_limit''))
                                            (Some (Fin 100))))]]) = Inl m
   \<longrightarrow> account_overview rt dv account options = ToolError m"
  by (simp add: account_overview_def catching_def bindE_def toolError_def Let_def)

lemma token_overview_hard:
  "tokenIdFromIssuerCurrency issuer currency = Some tokenID
   \<and> xrplRpc rt ''book_offers''
         (JArr [JObj [
            (''taker_gets'', JObj [(''currency'', JStr currency), (''issuer'', JStr issuer)]),
            (''taker_pays'', JObj [(''currency'', JStr ''XRP'')])]]) = Inl m
   \<longrightarrow> token_overview rt issuer currency options = ToolError m"
  by (simp add: token_overview_def catching_def bindE_def toolError_def Let_def)

lemma market_snapshot_hard:
  "xrplRpc rt ''book_offers''
      (JArr [JObj [(''taker_gets'', base), (''taker_pays'', quote), (''limit'', natNum 50)]]) = Inl m
   \<longrightarrow> market_snapshot rt base quote options = ToolError m"
  by (simp add: market_snapshot_def catching_def bindE_def toolError_def Let_def)

lemma amm_overview_hard:
  "xrplRpc rt ''amm_info''
      (JArr [if truthy amm_id then JObj [(''amm_account'', amm_id)]
             else JObj [(''asset'', assetA), (''asset2'', assetB)]]) = Inl m
   \<longrightarrow> amm_overview rt amm_id assetA assetB options = ToolError m"
  by (simp add: amm_overview_def catching_def bindE_def toolError_def Let_def)

lemma validator_set_overview_hard:
  "vhsGet rt (''/v1/network/validators''
      @ (if truthy (optField options ''group'')
         then ''/'' @ encodeURIComponent (String rt (optField options ''group'')) else [])) = Inl m
   \<longrightarrow> validator_set_overview rt dv options = ToolError m"
  by (simp add: validator_set_overview_def catching_def bindE_def toolError_def Let_def)

lemma validator_health_hard1:
  "vhsGet rt (''/v1/network/validator/'' @ encodeURIComponent pubkey) = Inl m
   \<longrightarrow> validator_health rt pubkey window = ToolError m"
  by (simp add: validator_health_def catching_def bindE_def toolError_def Let_def)

lemma validator_health_hard2:
  "vhsGet rt (''/v1/network/validator/'' @ encodeURIComponent pubkey) = Inr validator
   \<and> vhsGet rt (''/v1/network/validator/'' @ encodeURIComponent pubkey @ ''/reports'') = Inl m
   \<longrightarrow> validator_health rt pubkey window = ToolError m"
  by (simp add: validator_health_def catching_def bindE_def toolError_def Let_def)

lemma amendment_status_hard1:
  "vhsGet rt ''/v1/network/amendments/info'' = Inl m
   \<longrightarrow> amendment_status rt network = ToolError m"
  by (simp add: amendment_status_def catching_def bindE_def toolError_def Let_def)

lemma amendment_status_hard2:
  "vhsGet rt ''/v1/network/amendments/info'' = Inr vhInfo \<and> truthy network
   \<and> vhsGet rt (''/v1/network/amendments/vote/'' @ encodeURIComponent (String rt network)) = Inl m
   \<longrightarrow> amendment_status rt network = ToolError m"
  by (simp add: amendment_status_def catching_def bindE_def toolError_def Let_def)

lemma amendment_status_hard3:
  "vhsGet rt ''/v1/network/amendments/info'' = Inr vhInfo
   \<and> (if truthy network
        then vhsGet rt (''/v1/network/amendments/vote/'' @ encodeURIComponent (String rt network))
        else Inr JNull) = Inr votes
   \<and> xrplRpc rt ''server_info'' (JArr [JObj []]) = Inl m
   \<longrightarrow> amendment_status rt network = ToolError m"
  by (simp add: amendment_status_def catching_def bindE_def toolError_def Let_def)

lemma search_transactions_hard:
  "callLos rt ''/transactions''
     (JObj (setProp ''size'' (nullish pageSize (nullish (optField filters ''size'') (natNum 200)))
              (setProp ''marker'' (orElse cursor (optField filters ''marker'')) (ownProps filters))))
     = Inl m
   \<longrightarrow> search_transactions rt dv filters cursor pageSize = ToolError m"
  by (simp add: search_transactions_def catching_def bindE_def toolError_def Let_def)

lemma one_shape: "isError r = (\<not> isEnvelope r)"
  by (cases r) simp_all

text \<open>
  C1. Each of the twelve composite handlers returns, whatever its upstream calls do, a value
  that is either one complete envelope or one error result, never both and never anything
  else. When a mandatory upstream call fails (the earlier mandatory calls of the same handler
  having succeeded), the result is the error result carrying the message of that failure,
  whatever the optional calls before it returned: nothing gathered so far is attached, since
  an error result carries the message only. The mandatory calls are \<^verbatim>\<open>server_info\<close> for
  \<^verbatim>\<open>network_overview\<close>; \<^verbatim>\<open>ledger\<close> for \<^verbatim>\<open>ledger_summary\<close>; \<^verbatim>\<open>tx\<close> for \<^verbatim>\<open>tx_explain\<close>;
  \<^verbatim>\<open>account_info\<close>, \<^verbatim>\<open>account_lines\<close> and \<^verbatim>\<open>account_tx\<close> for \<^verbatim>\<open>account_overview\<close>;
  \<^verbatim>\<open>book_offers\<close> for \<^verbatim>\<open>token_overview\<close> (reached when the currency normalizes) and for
  \<^verbatim>\<open>market_snapshot\<close>; \<^verbatim>\<open>amm_info\<close> for \<^verbatim>\<open>amm_overview\<close>; the validator list for
  \<^verbatim>\<open>validator_set_overview\<close>; the validator and its reports for \<^verbatim>\<open>validator_health\<close>; the
  amendment info, the votes when a network is named, and \<^verbatim>\<open>server_info\<close> for
  \<^verbatim>\<open>amendment_status\<close>; the transaction search for \<^verbatim>\<open>search_transactions\<close>.
  \<^verbatim>\<open>resolve_entities\<close> makes no upstream call.
\<close>

theorem composite_handlers_one_result:
  "(xrplRpc rt ''server_info'' (JArr [JObj []]) = Inl m \<longrightarrow> network_overview rt = ToolError m)
   \<and> (xrplRpc rt ''ledger''
        (JArr [JObj ([(''transactions'', JBool False), (''expand'', JBool False)]
           @ (if ledger_index \<noteq> JUndefined then [(''ledger_index'', ledger_index)] else [])
           @ (if truthy ledger_hash then [(''ledger_hash'', ledger_hash)] else []))]) = Inl m
      \<longrightarrow> ledger_summary rt ledger_index ledger_hash = ToolError m)
   \<and> (xrplRpc rt ''tx'' (JArr [JObj [(''transaction'', JStr tx_hash)]]) = Inl m
      \<longrightarrow> tx_explain rt dv tx_hash = ToolError m)
   \<and> (xrplRpc rt ''account_info''
         (JArr [JObj [(''account'', JStr account), (''ledger_index'', JStr ''validated'')]]) = Inl m
      \<longrightarrow> account_overview rt dv account options = ToolError m)
   \<and> (xrplRpc rt ''account_info''
         (JArr [JObj [(''account'', JStr account), (''ledger_index'', JStr ''validated'')]]) = Inr info
       \<and> xrplRpc rt ''account_lines''
         (JArr [JObj [(''account'', JStr account), (''ledger_index'', JStr ''validated''),
                      (''limit'', numOrNull (orNum (toNum (coerce rt) (optField options ''lines_limit''))
                                               (Some (Fin 400))))]]) = Inl m
      \<longrightarrow> account_overview rt dv account options = ToolError m)
   \<and> (xrplRpc rt ''account_info''
         (JArr [JObj [(''account'', JStr account), (''ledger_index'', JStr ''validated'')]]) = Inr info
       \<and> xrplRpc rt ''account_lines''
         (JArr [JObj [(''account'', JStr account), (''ledger_index'', JStr ''validated''),
                      (''limit'', numOrNull (orNum (toNum (coerce rt) (optField options ''lines_limit''))
                                               (Some (Fin 400))))]]) = Inr trustlines
       \<and> xrplRpc rt ''account_tx''
         (JArr [JObj [(''account'', JStr account), (''ledger_index_min'', JNum (Fin (- 1))),
                      (''ledger_index_max'', JNum (Fin (- 1))),
                      (''limit'', numOrNull (orNum (toNum (coerce rt) (optField options ''tx_limit''))
                                               (Some (Fin 100))))]]) = Inl m
      \<longrightarrow> account_overview rt dv account options = ToolError m)
   \<and> (tokenIdFromIssuerCurrency issuer currency = Some tokenID
       \<and> xrplRpc rt ''book_offers''
            (JArr [JObj [
               (''taker_gets'', JObj [(''currency'', JStr currency), (''issuer'', JStr issuer)]),
               (''taker_pays'', JObj [(''currency'', JStr ''XRP'')])]]) = Inl m
      \<longrightarrow> token_overview rt issuer currency options = ToolError m)
   \<and> (xrplRpc rt ''book_offers''
         (JArr [JObj [(''taker_gets'', base), (''taker_pays'', quote), (''limit'', natNum 50)]]) = Inl m
      \<longrightarrow> market_snapshot rt base quote options = ToolError m)
   \<and> (xrplRpc rt ''amm_info''
         (JArr [if truthy amm_id then JObj [(''amm_account'', amm_id)]
                else JObj [(''asset'', assetA), (''asset2'', assetB)]]) = Inl m
      \<longrightarrow> amm_overview rt amm_id assetA assetB options = ToolError m)
   \<and> (vhsGet rt (''/v1/network/validators''
         @ (if truthy (optField options ''group'')
            then ''/'' @ encodeURIComponent (String rt (optField options ''group'')) else [])) = Inl m
      \<longrightarrow> validator_set_overview rt dv options = ToolError m)
   \<and> (vhsGet rt (''/v1/network/validator/'' @ encodeURIComponent pubkey) = Inl m
      \<longrightarrow> validator_health rt pubkey window = ToolError m)
   \<and> (vhsGet rt (''/v1/network/validator/'' @ encodeURIComponent pubkey) = Inr validator
       \<and> vhsGet rt (''/v1/network/validator/'' @ encodeURIComponent pubkey @ ''/reports'') = Inl m
      \<longrightarrow> validator_health rt pubkey window = ToolError m)
   \<and> (vhsGet rt ''/v1/network/amendments/info'' = Inl m
      \<longrightarrow> amendment_status rt network = ToolError m)
   \<and> (vhsGet rt ''/v1/network/amendments/info'' = Inr vhInfo \<and> truthy network
       \<and> vhsGet rt (''/v1/network/amendments/vote/'' @ encodeURIComponent (String rt network)) = Inl m
      \<longrightarrow> amendment_status rt network = ToolError m)
   \<and> (vhsGet rt ''/v1/network/amendments/info'' = Inr vhInfo
       \<and> (if truthy network
           then vhsGet rt (''/v1/network/amendments/vote/'' @ encodeURIComponent (String rt network))
           else Inr JNull) = Inr votes
       \<and> xrplRpc rt ''server_info'' (JArr [JObj []]) = Inl m
      \<longrightarrow> amendment_status rt network = ToolError m)
   \<and> (callLos rt ''/transactions''
        (JObj (setProp ''size'' (nullish pageSize (nullish (optField filters ''size'') (natNum 200)))
                 (setProp ''marker'' (orElse cursor (optField filters ''marker'')) (ownProps filters))))
        = Inl m
      \<longrightarrow> search_transactions rt dv filters cursor pageSize = ToolError m)
   \<and> isEnvelope (resolve_entities rt input)
   \<and> list_all (\<lambda>r. isError r = (\<not> isEnvelope r))
       [network_overview rt, ledger_summary rt ledger_index ledger_hash, tx_explain rt dv tx_hash,
        account_overview rt dv account options, token_overview rt issuer currency options,
        market_snapshot rt base quote options, amm_overview rt amm_id assetA assetB options,
        validator_set_overview rt dv options, validator_health rt pubkey window,
        amendment_status rt network, search_transactions rt dv filters cursor pageSize,
        resolve_entities rt input]"
proof -
  have r: "isEnvelope (resolve_entities rt input)"
    by (cases "classify input") (simp add: resolve_entities_def catching_def toToolEnvelope_def)
  have s: "list_all (\<lambda>r. isError r = (\<not> isEnvelope r))
       [network_overview rt, ledger_summary rt ledger_index ledger_hash, tx_explain rt dv tx_hash,
        account_overview rt dv account options, token_overview rt issuer currency options,
        market_snapshot rt base quote options, amm_overview rt amm_id assetA assetB options,
        validator_set_overview rt dv options, validator_health rt pubkey window,
        amendment_status rt network, search_transactions rt dv filters cursor pageSize,
        resolve_entities rt input]"
    by (simp add: one_shape)
  show ?thesis
    by (intro conjI network_overview_hard ledger_summary_hard tx_explain_hard
        account_overview_hard1 account_overview_hard2 account_overview_hard3 token_overview_hard
        market_snapshot_hard amm_overview_hard validator_set_overview_hard validator_health_hard1
        validator_health_hard2 amendment_status_hard1 amendment_status_hard2
        amendment_status_hard3 search_transactions_hard r s)
qed

lemma sample_calls:
  "xrplRpc (sampleRuntime (reachable names) emptyObjects) meth params
     = (if meth \<in> set names then Inr (JObj []) else Inl ''fetch failed'')"
  "vhsGet (sampleRuntime (reachable names) emptyObjects) path
     = (if path \<in> set names then Inr (JObj []) else Inl ''fetch failed'')"
  "callLos (sampleRuntime (reachable names) emptyObjects) path query
     = (if path \<in> set names then Inr (JObj []) else Inl ''fetch failed'')"
  by (simp_all add: xrplRpc_def vhsGet_def callLos_def fetchWithParse_def sampleRuntime_def
      reachable_def methodName_def okJson_def parseBody_def emptyObjects_def startsWith_def)

lemma tokenId_usd:
  "tokenIdFromIssuerCurrency ''rHb9CJAWyB4rj91VRWn96DkukG4bwdtyTh'' ''usd''
     = Some ''5553440000000000000000000000000000000000.rHb9CJAWyB4rj91VRWn96DkukG4bwdtyTh''"
  by (simp add: tokenIdFromIssuerCurrency_def currency_usd)

lemma encode_pubkey: "encodeURIComponent ''nHBtest1'' = ''nHBtest1''"
  by (simp add: encodeURIComponent_def upperLetters_def lowerLetters_def decimalDigits_def)

lemma encode_main: "encodeURIComponent ''main'' = ''main''"
  by (simp add: encodeURIComponent_def upperLetters_def lowerLetters_def decimalDigits_def)

theorem composite_handlers_one_result_witness:
  "network_overview (sampleRuntime (reachable []) emptyObjects) = ToolError ''fetch failed''
   \<and> ledger_summary (sampleRuntime (reachable []) emptyObjects) (JNum (Fin 5)) JUndefined
       = ToolError ''fetch failed''
   \<and> tx_explain (sampleRuntime (reachable [''/transactions'']) emptyObjects) plainDerived ''E3FE''
       = ToolError ''fetch failed''
   \<and> account_overview (sampleRuntime (reachable []) emptyObjects) plainDerived ''rAlice'' JUndefined
       = ToolError ''fetch failed''
   \<and> account_overview (sampleRuntime (reachable [''account_info'']) emptyObjects) plainDerived
         ''rAlice'' JUndefined = ToolError ''fetch failed''
   \<and> account_overview (sampleRuntime (reachable [''account_info'', ''account_lines'']) emptyObjects)
         plainDerived ''rAlice'' JUndefined = ToolError ''fetch failed''
   \<and> token_overview (sampleRuntime (reachable [''/transactions'']) emptyObjects)
         ''rHb9CJAWyB4rj91VRWn96DkukG4bwdtyTh'' ''usd'' JUndefined = ToolError ''fetch failed''
   \<and> market_snapshot (sampleRuntime (reachable []) emptyObjects) (JObj [(''currency'', JStr ''XRP'')])
         (JObj [(''currency'', JStr ''USD'')]) JUndefined = ToolError ''fetch failed''
   \<and> amm_overview (sampleRuntime (reachable []) emptyObjects) (JStr ''rAmm'') JUndefined JUndefined
         JUndefined = ToolError ''fetch failed''
   \<and> validator_set_overview (sampleRuntime (reachable []) emptyObjects) plainDerived JUndefined
       = ToolError ''fetch failed''
   \<and> validator_health (sampleRuntime (reachable []) emptyObjects) ''nHBtest1'' JUndefined
       = ToolError ''fetch failed''
   \<and> validator_health (sampleRuntime (reachable [''/v1/network/validator/nHBtest1'']) emptyObjects)
         ''nHBtest1'' JUndefined = ToolError ''fetch failed''
   \<and> amendment_status (sampleRuntime (reachable []) emptyObjects) JUndefined
       = ToolError ''fetch failed''
   \<and> amendment_status (sampleRuntime (reachable [''/v1/network/amendments/info'']) emptyObjects)
         (JStr ''main'') = ToolError ''fetch failed''
   \<and> amendment_status (sampleRuntime (reachable [''/v1/network/amendments/info'']) emptyObjects)
         JUndefined = ToolError ''fetch failed''
   \<and> search_transactions (sampleRuntime (reachable []) emptyObjects) plainDerived (JObj [])
         JUndefined JUndefined = ToolError ''fetch failed''
   \<and> isEnvelope (resolve_entities (sampleRuntime (reachable []) emptyObjects) ''abc'')"
proof -
  note T = composite_handlers_one_result
    [where m = "''fetch failed''" and dv = plainDerived and ledger_index = "JNum (Fin 5)"
       and ledger_hash = JUndefined and tx_hash = "''E3FE''" and account = "''rAlice''"
       and options = JUndefined and info = "JObj []" and trustlines = "JObj []"
       and issuer = "''rHb9CJAWyB4rj91VRWn96DkukG4bwdtyTh''" and currency = "''usd''"
       and tokenID = "''5553440000000000000000000000000000000000.rHb9CJAWyB4rj91VRWn96DkukG4bwdtyTh''"
       and base = "JObj [(''currency'', JStr ''XRP'')]" and quote = "JObj [(''currency'', JStr ''USD'')]"
       and amm_id = "JStr ''rAmm''" and assetA = JUndefined and assetB = JUndefined
       and pubkey = "''nHBtest1''" and window = JUndefined and validator = "JObj []"
       and vhInfo = "JObj []" and votes = JNull and pageSize = JUndefined and filters = "JObj []"
       and cursor = JUndefined and input = "''abc''"]
  let ?down = "sampleRuntime (reachable []) emptyObjects"
  have down: "network_overview ?down = ToolError ''fetch failed''
     \<and> ledger_summary ?down (JNum (Fin 5)) JUndefined = ToolError ''fetch failed''
     \<and> account_overview ?down plainDerived ''rAlice'' JUndefined = ToolError ''fetch failed''
     \<and> market_snapshot ?down (JObj [(''currency'', JStr ''XRP'')])
          (JObj [(''currency'', JStr ''USD'')]) JUndefined = ToolError ''fetch failed''
     \<and> amm_overview ?down (JStr ''rAmm'') JUndefined JUndefined JUndefined = ToolError ''fetch failed''
     \<and> validator_set_overview ?down plainDerived JUndefined = ToolError ''fetch failed''
     \<and> validator_health ?down ''nHBtest1'' JUndefined = ToolError ''fetch failed''
     \<and> amendment_status ?down JUndefined = ToolError ''fetch failed''
     \<and> search_transactions ?down plainDerived (JObj []) JUndefined JUndefined
         = ToolError ''fetch failed''
     \<and> isEnvelope (resolve_entities ?down ''abc'')"
    using T [where rt = ?down and network = JUndefined] by (simp add: sample_calls)
  have soft: "tx_explain (sampleRuntime (reachable [''/transactions'']) emptyObjects) plainDerived
         ''E3FE'' = ToolError ''fetch failed''
     \<and> token_overview (sampleRuntime (reachable [''/transactions'']) emptyObjects)
         ''rHb9CJAWyB4rj91VRWn96DkukG4bwdtyTh'' ''usd'' JUndefined = ToolError ''fetch failed''"
    using T [where rt = "sampleRuntime (reachable [''/transactions'']) emptyObjects"
               and network = JUndefined]
    by (simp add: sample_calls tokenId_usd)
  have second: "account_overview (sampleRuntime (reachable [''account_info'']) emptyObjects)
         plainDerived ''rAlice'' JUndefined = ToolError ''fetch failed''"
    using T [where rt = "sampleRuntime (reachable [''account_info'']) emptyObjects"
               and network = JUndefined]
    by (simp add: sample_calls)
  have third: "account_overview
         (sampleRuntime (reachable [''account_info'', ''account_lines'']) emptyObjects)
         plainDerived ''rAlice'' JUndefined = ToolError ''fetch failed''"
    using T [where rt = "sampleRuntime (reachable [''account_info'', ''account_lines'']) emptyObjects"
               and network = JUndefined]
    by (simp add: sample_calls)
  have reports: "validator_health
         (sampleRuntime (reachable [''/v1/network/validator/nHBtest1'']) emptyObjects)
         ''nHBtest1'' JUndefined = ToolError ''fetch failed''"
    using T [where rt = "sampleRuntime (reachable [''/v1/network/validator/nHBtest1'']) emptyObjects"
               and network = JUndefined]
    by (simp add: sample_calls encode_pubkey)
  have votes: "amendment_status
         (sampleRuntime (reachable [''/v1/network/amendments/info'']) emptyObjects)
         (JStr ''main'') = ToolError ''fetch failed''"
    using T [where rt = "sampleRuntime (reachable [''/v1/network/amendments/info'']) emptyObjects"
               and network = "JStr ''main''"]
    by (simp add: sample_calls encode_main String_def)
  have node: "amendment_status
         (sampleRuntime (reachable [''/v1/network/amendments/info'']) emptyObjects)
         JUndefined = ToolError ''fetch failed''"
    using T [where rt = "sampleRuntime (reachable [''/v1/network/amendments/info'']) emptyObjects"
               and network = JUndefined]
    by (simp add: sample_calls)
  from down soft second third reports votes node show ?thesis by simp
qed

end
